theory Spec2Isabelle
  imports Main "HOL-Library.Word"
begin

unbundle bit_operations_syntax

section \<open>Values shared by the packages\<close>

text \<open>
  Go strings are byte sequences; \<open>string\<close> (a list of 8-bit characters) models them
  byte for byte. A \<open>time.Duration\<close> is a number of nanoseconds.
\<close>

type_synonym path = string
type_synonym duration = int

definition Second :: duration where
  "Second = 1000000000"

definition Minute :: duration where
  "Minute = 60 * Second"

text \<open>
  Error values and the arguments of format strings. \<open>fmt.Errorf\<close> and the logger
  receive a format string and arguments; the model keeps both unrendered, so that a
  wrapped error (\<open>%w\<close>) still shows the error it wraps. \<open>Foreign m\<close> is an error
  value made by the operating system or a library, with message \<open>m\<close>. The argument
  \<open>E e\<close> stands for the error \<open>e\<close> or its text \<open>e.Error()\<close>, \<open>B n\<close> for
  \<open>utils.FormatBytes(n)\<close>, \<open>Ops m\<close> for an \<open>fsnotify.Op\<close>.
\<close>

datatype arg = S string | I int | D duration | B int | Ops "32 word" | E error
  and error = Errorf string "arg list" | Foreign string

datatype level = DEBUG | INFO | WARN | ERROR

text \<open>
  What \<open>cmd.CombinedOutput()\<close> and the context report once \<open>sh -c command\<close> has been
  run under a deadline: the combined output, the error of the call (its message), and
  whether \<open>ctx.Err()\<close> is \<open>context.DeadlineExceeded\<close>.
\<close>

datatype run_result =
  RunResult (combined_output: string) (run_err: "string option") (deadline_exceeded: bool)

datatype fileinfo = File (Mode: "32 word") (content: string)

datatype auth_method = PublicKeys string

text \<open>
  A host-key callback is either \<open>ssh.InsecureIgnoreHostKey()\<close> or the callback that
  \<open>knownhosts.New\<close> builds from the contents of a known-hosts file.
\<close>

datatype host_key_callback = InsecureIgnoreHostKey | KnownHosts string

datatype client_config =
  ClientConfig (User: string) (Auth: "auth_method list")
    (HostKeyCallback: host_key_callback) (Timeout: duration)

datatype ssh_op =
    Dial string string client_config
  | NewSession
  | StdinPipe
  | Start string
  | StdinWrite string
  | StdinCopy string
  | CloseStdin
  | Wait
  | SessionClose
  | ClientClose

text \<open>
  Everything the program does to the outside is recorded, in order, with its outcome.
\<close>

datatype event =
    Log level string "arg list"
  | Spawn string duration run_result
  | Sleep duration
  | MkdirAll path "string option"
  | Remove path "string option"
  | Ssh ssh_op "string option"

text \<open>
  The world: the regular files of the local file system and the trace of events. Reading
  a file (\<open>os.Stat\<close>, \<open>os.Open\<close>, \<open>os.ReadFile\<close>) succeeds exactly when the file is
  there.
\<close>

record world =
  files :: "path \<Rightarrow> fileinfo option"
  trace :: "event list"

text \<open>
  The external collaborators, as functions of the world so far: the shell (what a
  command line does, and the files it leaves behind), what other processes do to the
  files while the program sleeps, the failures of directory creation, of the removal
  of an existing file, of \<open>Stat\<close> on an open file and of each operation of the secure
  session, the clock (\<open>time.Now().Format("20060102-150405")\<close>), \<open>$HOME\<close>, and the
  standard library's \<open>filepath.Join\<close>, \<open>ssh.ParsePrivateKey\<close> and
  \<open>knownhosts.New\<close> (the last two by the error they give on a file's contents).
\<close>

record env =
  sh :: "world \<Rightarrow> string \<Rightarrow> duration \<Rightarrow> run_result \<times> (path \<Rightarrow> fileinfo option)"
  meanwhile :: "world \<Rightarrow> duration \<Rightarrow> path \<Rightarrow> fileinfo option"
  fstat_err :: "world \<Rightarrow> path \<Rightarrow> string option"
  mkdir_err :: "world \<Rightarrow> path \<Rightarrow> string option"
  remove_err :: "world \<Rightarrow> path \<Rightarrow> string option"
  ssh_err :: "world \<Rightarrow> ssh_op \<Rightarrow> string option"
  now :: "world \<Rightarrow> string"
  home :: string
  Join :: "string list \<Rightarrow> string"
  parse_key_err :: "string \<Rightarrow> string option"
  known_hosts_err :: "string \<Rightarrow> string option"

definition emit :: "event \<Rightarrow> world \<Rightarrow> world" where
  "emit ev w = w\<lparr>trace := trace w @ [ev]\<rparr>"

section \<open>Package utils\<close>

subsection \<open>Logger\<close>

text \<open>
  A call of a logger method is recorded as a \<open>Log\<close> event. Whether the line reaches
  the output depends on the logger's level, which \<open>Logger_prints\<close> decides as the
  methods \<open>Debug\<close>, \<open>Info\<close>, \<open>Warn\<close> and \<open>Error\<close> do.
\<close>

definition logf :: "level \<Rightarrow> string \<Rightarrow> arg list \<Rightarrow> world \<Rightarrow> world" where
  "logf l msg args w = emit (Log l msg args) w"

fun Logger_prints :: "string \<Rightarrow> level \<Rightarrow> bool" where
  "Logger_prints lv DEBUG = (lv = ''debug'')"
| "Logger_prints lv INFO = (lv = ''debug'' \<or> lv = ''info'')"
| "Logger_prints lv WARN = (lv = ''debug'' \<or> lv = ''info'' \<or> lv = ''warn'')"
| "Logger_prints lv ERROR = True"

subsection \<open>strings.TrimSpace\<close>

text \<open>
  \<open>strings.TrimSpace\<close> removes leading and trailing white space as Unicode defines it
  (\<open>unicode.IsSpace\<close>), reading the string as UTF-8. \<open>space_codes\<close> lists the UTF-8
  encodings of the white-space code points: U+0009 to U+000D, U+0020, U+0085, U+00A0,
  U+1680, U+2000 to U+200A, U+2028, U+2029, U+202F, U+205F and U+3000.
\<close>

definition space_codes :: "string list" where
  "space_codes =
     [[CHR 0x09], [CHR 0x0A], [CHR 0x0B], [CHR 0x0C], [CHR 0x0D], [CHR 0x20],
      [CHR 0xC2, CHR 0x85], [CHR 0xC2, CHR 0xA0],
      [CHR 0xE1, CHR 0x9A, CHR 0x80],
      [CHR 0xE2, CHR 0x80, CHR 0x80], [CHR 0xE2, CHR 0x80, CHR 0x81],
      [CHR 0xE2, CHR 0x80, CHR 0x82], [CHR 0xE2, CHR 0x80, CHR 0x83],
      [CHR 0xE2, CHR 0x80, CHR 0x84], [CHR 0xE2, CHR 0x80, CHR 0x85],
      [CHR 0xE2, CHR 0x80, CHR 0x86], [CHR 0xE2, CHR 0x80, CHR 0x87],
      [CHR 0xE2, CHR 0x80, CHR 0x88], [CHR 0xE2, CHR 0x80, CHR 0x89],
      [CHR 0xE2, CHR 0x80, CHR 0x8A],
      [CHR 0xE2, CHR 0x80, CHR 0xA8], [CHR 0xE2, CHR 0x80, CHR 0xA9],
      [CHR 0xE2, CHR 0x80, CHR 0xAF],
      [CHR 0xE2, CHR 0x81, CHR 0x9F],
      [CHR 0xE3, CHR 0x80, CHR 0x80]]"

fun strip_prefix :: "string \<Rightarrow> string \<Rightarrow> string option" where
  "strip_prefix [] s = Some s"
| "strip_prefix (c # cs) [] = None"
| "strip_prefix (c # cs) (d # ds) = (if c = d then strip_prefix cs ds else None)"

definition leading_space :: "string \<Rightarrow> string option" where
  "leading_space s = (case List.map_filter (\<lambda>code. strip_prefix code s) space_codes of
                        [] \<Rightarrow> None | r # _ \<Rightarrow> Some r)"

definition trailing_space :: "string \<Rightarrow> string option" where
  "trailing_space s =
     (case List.map_filter (\<lambda>code. strip_prefix (rev code) (rev s)) space_codes of
        [] \<Rightarrow> None | r # _ \<Rightarrow> Some (rev r))"

lemma strip_prefix_length:
  "strip_prefix p s = Some r \<Longrightarrow> length s = length p + length r"
  by (induction p s rule: strip_prefix.induct) (auto split: if_splits)

lemma space_codes_nonempty: "code \<in> set space_codes \<Longrightarrow> code \<noteq> []"
  by (auto simp: space_codes_def)

lemma leading_space_shorter: "leading_space s = Some r \<Longrightarrow> length r < length s"
proof -
  assume a: "leading_space s = Some r"
  then have "r \<in> set (List.map_filter (\<lambda>code. strip_prefix code s) space_codes)"
    by (auto simp: leading_space_def split: list.splits)
  then obtain code where c: "code \<in> set space_codes" "strip_prefix code s = Some r"
    by (auto simp: map_filter_def split: option.splits)
  from strip_prefix_length [OF c(2)] space_codes_nonempty [OF c(1)]
  show ?thesis by (cases code) auto
qed

lemma trailing_space_shorter: "trailing_space s = Some r \<Longrightarrow> length r < length s"
proof -
  assume a: "trailing_space s = Some r"
  then have "rev r \<in> set (List.map_filter (\<lambda>code. strip_prefix (rev code) (rev s)) space_codes)"
    by (auto simp: trailing_space_def split: list.splits)
  then obtain code where c: "code \<in> set space_codes"
      "strip_prefix (rev code) (rev s) = Some (rev r)"
    by (auto simp: map_filter_def split: option.splits)
  from strip_prefix_length [OF c(2)] space_codes_nonempty [OF c(1)]
  show ?thesis by (cases code) auto
qed

function TrimLeft :: "string \<Rightarrow> string" where
  "TrimLeft s = (case leading_space s of None \<Rightarrow> s | Some r \<Rightarrow> TrimLeft r)"
  by pat_completeness auto
termination
  by (relation "measure length") (auto dest: leading_space_shorter)

function TrimRight :: "string \<Rightarrow> string" where
  "TrimRight s = (case trailing_space s of None \<Rightarrow> s | Some r \<Rightarrow> TrimRight r)"
  by pat_completeness auto
termination
  by (relation "measure length") (auto dest: trailing_space_shorter)

declare TrimLeft.simps [simp del] TrimRight.simps [simp del]

definition TrimSpace :: "string \<Rightarrow> string" where
  "TrimSpace s = TrimRight (TrimLeft s)"

subsection \<open>ExecuteCommand and ExecuteCommands\<close>

text \<open>
  \<open>ExecuteCommand\<close> runs \<open>sh -c command\<close> under a deadline and returns the output,
  the error and the world after the run. The deadline is tested first, so a run that
  exceeded it gives the empty output and the time-out error whatever the call returned.
\<close>

definition ExecuteCommand ::
  "env \<Rightarrow> string \<Rightarrow> duration \<Rightarrow> world \<Rightarrow> string \<times> error option \<times> world" where
  "ExecuteCommand ev command timeout w =
     (let (r, fs) = sh ev w command timeout;
          w' = emit (Spawn command timeout r) (w\<lparr>files := fs\<rparr>)
      in if deadline_exceeded r
         then ('''', Some (Errorf ''command timed out after %v: %s'' [D timeout, S command]), w')
         else (case run_err r of
                 Some m \<Rightarrow>
                   (combined_output r,
                    Some (Errorf ''command failed: %s, output: %s'' [S m, S (combined_output r)]), w')
               | None \<Rightarrow> (combined_output r, None, w')))"

fun ExecuteCommands ::
  "env \<Rightarrow> string list \<Rightarrow> duration \<Rightarrow> world \<Rightarrow> error option \<times> world" where
  "ExecuteCommands ev [] timeout w = (None, w)"
| "ExecuteCommands ev (cmd # commands) timeout w =
     (if TrimSpace cmd = '''' then ExecuteCommands ev commands timeout w
      else
        (case ExecuteCommand ev cmd timeout (logf INFO ''Executing command: %s'' [S cmd] w) of
           (out, Some e, w') \<Rightarrow> (Some e, logf ERROR ''Command failed: %s'' [E e] w')
         | (out, None, w') \<Rightarrow>
             ExecuteCommands ev commands timeout
               (if TrimSpace out \<noteq> ''''
                then logf DEBUG ''Command output: %s'' [S (TrimSpace out)] w'
                else w')))"

definition FileExists :: "world \<Rightarrow> path \<Rightarrow> bool" where
  "FileExists w p = (files w p \<noteq> None)"

definition EnsureDir :: "env \<Rightarrow> path \<Rightarrow> world \<Rightarrow> error option \<times> world" where
  "EnsureDir ev p w =
     (let r = mkdir_err ev w p
      in (map_option Foreign r, emit (MkdirAll p r) w))"

definition GetFileSize :: "world \<Rightarrow> path \<Rightarrow> error + int" where
  "GetFileSize w p =
     (case files w p of
        None \<Rightarrow> Inl (Foreign ''stat: no such file or directory'')
      | Some f \<Rightarrow> Inr (int (length (content f))))"

subsection \<open>Standard-library functions the packages call\<close>

text \<open>
  \<open>strings.HasSuffix\<close>, \<open>filepath.Base\<close> (on a system whose separator is the slash), the
  verbs \<open>%d\<close> and \<open>%#o\<close> of \<open>fmt\<close>, and \<open>os.Remove\<close>.
\<close>

definition HasSuffix :: "string \<Rightarrow> string \<Rightarrow> bool" where
  "HasSuffix s suffix =
     (length suffix \<le> length s \<and> drop (length s - length suffix) s = suffix)"

definition Base :: "path \<Rightarrow> string" where
  "Base p =
     (if p = '''' then ''.''
      else
        (let q = rev (dropWhile (\<lambda>c. c = CHR ''/'') (rev p));
             b = rev (takeWhile (\<lambda>c. c \<noteq> CHR ''/'') (rev q))
         in if b = '''' then ''/'' else b))"

definition digit :: "nat \<Rightarrow> char" where
  "digit d = char_of (48 + d)"

fun decimal :: "nat \<Rightarrow> string" where
  "decimal n = (if n < 10 then [digit n] else decimal (n div 10) @ [digit (n mod 10)])"

fun octal :: "nat \<Rightarrow> string" where
  "octal n = (if n < 8 then [digit n] else octal (n div 8) @ [digit (n mod 8)])"

declare decimal.simps [simp del] octal.simps [simp del]

definition fmt_d :: "int \<Rightarrow> string" where
  "fmt_d i = (if i < 0 then ''-'' @ decimal (nat (- i)) else decimal (nat i))"

definition fmt_sharp_o :: "nat \<Rightarrow> string" where
  "fmt_sharp_o n = (if n = 0 then ''0'' else ''0'' @ octal n)"

definition os_Remove :: "env \<Rightarrow> path \<Rightarrow> world \<Rightarrow> error option \<times> world" where
  "os_Remove ev p w =
     (let r = (if files w p = None then Some ''remove: no such file or directory''
               else remove_err ev w p)
      in (map_option Foreign r,
          emit (Remove p r) (if r = None then w\<lparr>files := (files w)(p := None)\<rparr> else w)))"

definition ssh_do :: "env \<Rightarrow> ssh_op \<Rightarrow> world \<Rightarrow> error option \<times> world" where
  "ssh_do ev op w = (let r = ssh_err ev w op in (map_option Foreign r, emit (Ssh op r) w))"

section \<open>Package config\<close>

record UploaderConfig =
  DockerBuildPath :: string
  ImageName :: string
  ImageTag :: string
  TarballPath :: string
  RemoteHost :: string
  RemotePort :: int
  RemoteUser :: string
  RemoteKeyPath :: string
  RemoteUploadPath :: string
  BuildCommand :: string
  PreBuildCommands :: "string list"
  PostBuildCommands :: "string list"

record WatcherConfig =
  WatchDirectory :: string
  ContainerName :: string
  ContainerPort :: "string list"
  ContainerEnv :: "string list"
  ContainerVolumes :: "string list"
  PreLoadCommands :: "string list"
  PostLoadCommands :: "string list"
  RestartPolicy :: string

section \<open>Package watcher\<close>

text \<open>An \<open>fsnotify.Event\<close>: a path and a bit mask of operations.\<close>

record fs_event =
  Name :: string
  Op :: "32 word"

definition fsnotify_Create :: "32 word" where
  "fsnotify_Create = 1"

definition fsnotify_Write :: "32 word" where
  "fsnotify_Write = 2"

definition executePreLoadCommands ::
  "env \<Rightarrow> WatcherConfig \<Rightarrow> world \<Rightarrow> error option \<times> world" where
  "executePreLoadCommands ev cfg w =
     (if length (PreLoadCommands cfg) = 0 then (None, w)
      else ExecuteCommands ev (PreLoadCommands cfg) (5 * Minute)
             (logf INFO ''Executing pre-load commands...'' [] w))"

definition loadDockerImage :: "env \<Rightarrow> path \<Rightarrow> world \<Rightarrow> error option \<times> world" where
  "loadDockerImage ev tarballPath w =
     (case ExecuteCommand ev (''docker load -i '' @ tarballPath) (10 * Minute)
             (logf INFO ''Loading Docker image from tarball: %s'' [S tarballPath] w) of
        (out, Some e, w') \<Rightarrow> (Some e, w')
      | (out, None, w') \<Rightarrow>
          (None, logf DEBUG ''Docker load output: %s'' [S (TrimSpace out)] w'))"

definition stopAndRemoveContainer ::
  "env \<Rightarrow> WatcherConfig \<Rightarrow> world \<Rightarrow> error option \<times> world" where
  "stopAndRemoveContainer ev cfg w =
     (let w0 = logf INFO ''Stopping and removing existing container: %s''
                 [S (ContainerName cfg)] w;
          w1 = (case ExecuteCommand ev (''docker stop '' @ ContainerName cfg) (30 * Second) w0 of
                  (out, Some e, w') \<Rightarrow>
                    logf DEBUG ''Failed to stop container (may not exist): %v'' [E e] w'
                | (out, None, w') \<Rightarrow>
                    logf DEBUG ''Docker stop output: %s'' [S (TrimSpace out)] w');
          w2 = (case ExecuteCommand ev (''docker rm '' @ ContainerName cfg) (30 * Second) w1 of
                  (out, Some e, w') \<Rightarrow>
                    logf DEBUG ''Failed to remove container (may not exist): %v'' [E e] w'
                | (out, None, w') \<Rightarrow>
                    logf DEBUG ''Docker remove output: %s'' [S (TrimSpace out)] w')
      in (None, w2))"

definition extractImageNameFromTarball :: "WatcherConfig \<Rightarrow> string" where
  "extractImageNameFromTarball cfg = ContainerName cfg"

definition buildDockerRunCommand :: "WatcherConfig \<Rightarrow> string" where
  "buildDockerRunCommand cfg =
     (let cmd0 = ''docker run -d'';
          cmd1 = cmd0 @ '' --name '' @ ContainerName cfg;
          cmd2 = (if RestartPolicy cfg \<noteq> ''''
                  then cmd1 @ '' --restart '' @ RestartPolicy cfg else cmd1);
          cmd3 = foldl (\<lambda>cmd port. cmd @ '' -p '' @ port) cmd2 (ContainerPort cfg);
          cmd4 = foldl (\<lambda>cmd e. cmd @ '' -e '' @ e) cmd3 (ContainerEnv cfg);
          cmd5 = foldl (\<lambda>cmd volume. cmd @ '' -v '' @ volume) cmd4 (ContainerVolumes cfg);
          imageName = extractImageNameFromTarball cfg
      in cmd5 @ '' '' @ imageName)"

definition startContainer ::
  "env \<Rightarrow> WatcherConfig \<Rightarrow> world \<Rightarrow> error option \<times> world" where
  "startContainer ev cfg w =
     (let runCmd = buildDockerRunCommand cfg
      in case ExecuteCommand ev runCmd (2 * Minute)
                (logf INFO ''Starting new container: %s'' [S (ContainerName cfg)] w) of
           (out, Some e, w') \<Rightarrow> (Some e, w')
         | (out, None, w') \<Rightarrow>
             (None,
              logf INFO ''Container started successfully: %s'' [S (ContainerName cfg)]
                (logf DEBUG ''Docker run output: %s'' [S (TrimSpace out)] w')))"

definition executePostLoadCommands ::
  "env \<Rightarrow> WatcherConfig \<Rightarrow> world \<Rightarrow> error option \<times> world" where
  "executePostLoadCommands ev cfg w =
     (if length (PostLoadCommands cfg) = 0 then (None, w)
      else ExecuteCommands ev (PostLoadCommands cfg) (5 * Minute)
             (logf INFO ''Executing post-load commands...'' [] w))"

definition Watcher_cleanupTarball :: "env \<Rightarrow> path \<Rightarrow> world \<Rightarrow> error option \<times> world" where
  "Watcher_cleanupTarball ev tarballPath w =
     os_Remove ev tarballPath (logf INFO ''Cleaning up tarball: %s'' [S tarballPath] w)"

definition processTarball ::
  "env \<Rightarrow> WatcherConfig \<Rightarrow> path \<Rightarrow> world \<Rightarrow> error option \<times> world" where
  "processTarball ev cfg tarballPath w =
     (let w0 = logf INFO ''Processing tarball: %s'' [S tarballPath] w
      in if \<not> FileExists w0 tarballPath
         then (Some (Errorf ''tarball does not exist: %s'' [S tarballPath]), w0)
         else
           (let w1 = (case GetFileSize w0 tarballPath of
                        Inl e \<Rightarrow> logf WARN ''Failed to get tarball size: %v'' [E e] w0
                      | Inr sz \<Rightarrow>
                          logf INFO ''Processing tarball: %s (%s)''
                            [S (Base tarballPath), B sz] w0)
            in case executePreLoadCommands ev cfg w1 of
                 (Some e, w2) \<Rightarrow> (Some (Errorf ''pre-load commands failed: %w'' [E e]), w2)
               | (None, w2) \<Rightarrow>
            (case loadDockerImage ev tarballPath w2 of
                 (Some e, w3) \<Rightarrow> (Some (Errorf ''failed to load Docker image: %w'' [E e]), w3)
               | (None, w3) \<Rightarrow>
            (let w4 = (case stopAndRemoveContainer ev cfg w3 of
                         (Some e, w') \<Rightarrow>
                           logf WARN ''Failed to stop/remove existing container: %v'' [E e] w'
                       | (None, w') \<Rightarrow> w')
             in case startContainer ev cfg w4 of
                  (Some e, w5) \<Rightarrow> (Some (Errorf ''failed to start container: %w'' [E e]), w5)
                | (None, w5) \<Rightarrow>
             (let w6 = (case executePostLoadCommands ev cfg w5 of
                          (Some e, w') \<Rightarrow> logf WARN ''Post-load commands failed: %v'' [E e] w'
                        | (None, w') \<Rightarrow> w');
                  w7 = (case Watcher_cleanupTarball ev tarballPath w6 of
                          (Some e, w') \<Rightarrow> logf WARN ''Failed to cleanup tarball: %v'' [E e] w'
                        | (None, w') \<Rightarrow> w')
              in (None, logf INFO ''Tarball processing completed successfully'' [] w7))))))"

text \<open>
  \<open>handleFileEvent\<close> returns nothing; the model returns the world it leaves. While it
  sleeps, other processes may change the files.
\<close>

definition handleFileEvent :: "env \<Rightarrow> WatcherConfig \<Rightarrow> fs_event \<Rightarrow> world \<Rightarrow> world" where
  "handleFileEvent ev cfg event w =
     (if \<not> HasSuffix (Name event) ''.tar'' then w
      else
        (let w1 = logf DEBUG ''File event: %s %s'' [Ops (Op event), S (Name event)] w
         in if Op event AND fsnotify_Create = fsnotify_Create
               \<or> Op event AND fsnotify_Write = fsnotify_Write
            then
              (let w2 = logf INFO ''New tarball detected: %s'' [S (Name event)] w1;
                   w3 = emit (Sleep (2 * Second))
                          (w2\<lparr>files := meanwhile ev w2 (2 * Second)\<rparr>)
               in case processTarball ev cfg (Name event) w3 of
                    (Some e, w4) \<Rightarrow>
                      logf ERROR ''Failed to process tarball %s: %v'' [S (Name event), E e] w4
                  | (None, w4) \<Rightarrow> w4)
            else w1))"

section \<open>Package uploader\<close>

definition executePreBuildCommands ::
  "env \<Rightarrow> UploaderConfig \<Rightarrow> world \<Rightarrow> error option \<times> world" where
  "executePreBuildCommands ev cfg w =
     (if length (PreBuildCommands cfg) = 0 then (None, w)
      else ExecuteCommands ev (PreBuildCommands cfg) (5 * Minute)
             (logf INFO ''Executing pre-build commands...'' [] w))"

definition buildDockerImage ::
  "env \<Rightarrow> UploaderConfig \<Rightarrow> world \<Rightarrow> error option \<times> world" where
  "buildDockerImage ev cfg w =
     (let w0 = logf INFO ''Building Docker image: %s:%s'' [S (ImageName cfg), S (ImageTag cfg)] w;
          buildCmd = (if BuildCommand cfg \<noteq> '''' then BuildCommand cfg
                      else ''docker build -t '' @ ImageName cfg @ '':'' @ ImageTag cfg
                             @ '' '' @ DockerBuildPath cfg)
      in case ExecuteCommand ev buildCmd (15 * Minute) w0 of
           (out, Some e, w') \<Rightarrow> (Some e, w')
         | (out, None, w') \<Rightarrow>
             (None, logf DEBUG ''Docker build output: %s'' [S (TrimSpace out)] w'))"

definition createTarball ::
  "env \<Rightarrow> UploaderConfig \<Rightarrow> world \<Rightarrow> (error + path) \<times> world" where
  "createTarball ev cfg w =
     (let w0 = logf INFO ''Creating tarball for image: %s:%s''
                 [S (ImageName cfg), S (ImageTag cfg)] w;
          timestamp = now ev w0;
          tarballName = ImageName cfg @ ''_'' @ ImageTag cfg @ ''_'' @ timestamp @ ''.tar''
      in case (if TarballPath cfg \<noteq> ''''
               then (case EnsureDir ev (TarballPath cfg) w0 of
                       (Some e, w1) \<Rightarrow>
                         (Inl (Errorf ''failed to create tarball directory: %w'' [E e]), w1)
                     | (None, w1) \<Rightarrow> (Inr (Join ev [TarballPath cfg, tarballName]), w1))
               else (Inr tarballName, w0)) of
           (Inl e, w1) \<Rightarrow> (Inl e, w1)
         | (Inr tarballPath, w1) \<Rightarrow>
             (case ExecuteCommand ev
                     (''docker save '' @ ImageName cfg @ '':'' @ ImageTag cfg
                        @ '' -o '' @ tarballPath)
                     (10 * Minute) w1 of
                (out, Some e, w2) \<Rightarrow> (Inl e, w2)
              | (out, None, w2) \<Rightarrow>
                  (let w3 = logf DEBUG ''Docker save output: %s'' [S (TrimSpace out)] w2
                   in if \<not> FileExists w3 tarballPath
                      then (Inl (Errorf ''tarball was not created: %s'' [S tarballPath]), w3)
                      else
                        (Inr tarballPath,
                         (case GetFileSize w3 tarballPath of
                            Inl e \<Rightarrow> logf WARN ''Failed to get tarball size: %v'' [E e] w3
                          | Inr sz \<Rightarrow>
                              logf INFO ''Tarball created: %s (%s)'' [S tarballPath, B sz] w3)))))"

text \<open>
  \<open>knownhosts.New\<close> opens and parses the file and returns the callback that checks
  a host's key against it.
\<close>

definition knownhosts_New :: "env \<Rightarrow> world \<Rightarrow> path \<Rightarrow> error + host_key_callback" where
  "knownhosts_New ev w p =
     (case files w p of
        None \<Rightarrow> Inl (Foreign ''open: no such file or directory'')
      | Some f \<Rightarrow>
          (case known_hosts_err ev (content f) of
             Some m \<Rightarrow> Inl (Foreign m)
           | None \<Rightarrow> Inr (KnownHosts (content f))))"

text \<open>
  \<open>createSSHClient\<close> returns the client or an error; there is one client at a time,
  so the model returns the error only and records the dial in the trace.
\<close>

definition createSSHClient ::
  "env \<Rightarrow> UploaderConfig \<Rightarrow> world \<Rightarrow> error option \<times> world" where
  "createSSHClient ev cfg w =
     (case (if RemoteKeyPath cfg \<noteq> ''''
            then (case files w (RemoteKeyPath cfg) of
                    None \<Rightarrow>
                      Inl (Errorf ''failed to read private key: %w''
                             [E (Foreign ''open: no such file or directory'')])
                  | Some key \<Rightarrow>
                      (case parse_key_err ev (content key) of
                         Some m \<Rightarrow>
                           Inl (Errorf ''failed to parse private key: %w'' [E (Foreign m)])
                       | None \<Rightarrow> Inr [PublicKeys (content key)]))
            else Inr []) of
        Inl e \<Rightarrow> (Some e, w)
      | Inr auth \<Rightarrow>
          (let knownHostsFile = Join ev [home ev, ''.ssh'', ''known_hosts''];
               (hostKeyCallback, w1) =
                 (if FileExists w knownHostsFile
                  then (case knownhosts_New ev w knownHostsFile of
                          Inl e \<Rightarrow>
                            (InsecureIgnoreHostKey,
                             logf WARN
                               ''Failed to load known_hosts, using insecure connection: %v''
                               [E e] w)
                        | Inr hkc \<Rightarrow> (hkc, w))
                  else (InsecureIgnoreHostKey,
                        logf WARN ''known_hosts file not found, using insecure connection'' [] w));
               config = ClientConfig (RemoteUser cfg) auth hostKeyCallback (30 * Second);
               addr = RemoteHost cfg @ '':'' @ fmt_d (RemotePort cfg)
           in case ssh_do ev (Dial ''tcp'' addr config) w1 of
                (Some e, w2) \<Rightarrow>
                  (Some (Errorf ''failed to connect to SSH server: %w'' [E e]), w2)
              | (None, w2) \<Rightarrow> (None, w2)))"

text \<open>
  The part of \<open>scpUpload\<close> that runs once the session exists and its closing has been
  deferred: the pipe, the remote command, the header, the contents, the end marker, the
  closing of the input side (whose result the code drops) and the wait. \<open>Perm()\<close>
  keeps the low nine bits of the mode (\<open>0777\<close>, that is 511).
\<close>

definition scp_header :: "fileinfo \<Rightarrow> string \<Rightarrow> string" where
  "scp_header f fileName =
     ''C'' @ fmt_sharp_o (unat (Mode f AND 511)) @ '' '' @ fmt_d (int (length (content f)))
       @ '' '' @ fileName @ [CHR 0x0A]"

definition scp_session ::
  "env \<Rightarrow> fileinfo \<Rightarrow> string \<Rightarrow> string \<Rightarrow> world \<Rightarrow> error option \<times> world" where
  "scp_session ev f fileName remotePath w =
     (case ssh_do ev StdinPipe w of
        (Some e, w1) \<Rightarrow> (Some (Errorf ''failed to get stdin pipe: %w'' [E e]), w1)
      | (None, w1) \<Rightarrow>
     (case ssh_do ev (Start (''scp -t '' @ remotePath)) w1 of
        (Some e, w2) \<Rightarrow> (Some (Errorf ''failed to start SCP command: %w'' [E e]), w2)
      | (None, w2) \<Rightarrow>
     (case ssh_do ev (StdinWrite (scp_header f fileName)) w2 of
        (Some e, w3) \<Rightarrow> (Some (Errorf ''failed to send file header: %w'' [E e]), w3)
      | (None, w3) \<Rightarrow>
     (case ssh_do ev (StdinCopy (content f)) w3 of
        (Some e, w4) \<Rightarrow> (Some (Errorf ''failed to copy file content: %w'' [E e]), w4)
      | (None, w4) \<Rightarrow>
     (case ssh_do ev (StdinWrite [CHR 0x00]) w4 of
        (Some e, w5) \<Rightarrow> (Some (Errorf ''failed to send end marker: %w'' [E e]), w5)
      | (None, w5) \<Rightarrow>
     (case ssh_do ev Wait (snd (ssh_do ev CloseStdin w5)) of
        (Some e, w7) \<Rightarrow> (Some (Errorf ''SCP command failed: %w'' [E e]), w7)
      | (None, w7) \<Rightarrow> (None, w7)))))))"

definition scpUpload ::
  "env \<Rightarrow> UploaderConfig \<Rightarrow> path \<Rightarrow> world \<Rightarrow> error option \<times> world" where
  "scpUpload ev cfg localPath w =
     (case files w localPath of
        None \<Rightarrow>
          (Some (Errorf ''failed to open local file: %w''
                   [E (Foreign ''open: no such file or directory'')]), w)
      | Some f \<Rightarrow>
          (case fstat_err ev w localPath of
             Some m \<Rightarrow> (Some (Errorf ''failed to get file info: %w'' [E (Foreign m)]), w)
           | None \<Rightarrow>
               (let fileName = Base localPath;
                    remotePath = Join ev [RemoteUploadPath cfg, fileName]
                in case ssh_do ev NewSession w of
                     (Some e, w1) \<Rightarrow>
                       (Some (Errorf ''failed to create SSH session: %w'' [E e]), w1)
                   | (None, w1) \<Rightarrow>
                       (case scp_session ev f fileName remotePath w1 of
                          (r, w2) \<Rightarrow> (r, snd (ssh_do ev SessionClose w2))))))"

definition uploadTarball ::
  "env \<Rightarrow> UploaderConfig \<Rightarrow> path \<Rightarrow> world \<Rightarrow> error option \<times> world" where
  "uploadTarball ev cfg tarballPath w =
     (let w0 = logf INFO ''Uploading tarball to %s@%s:%s''
                 [S (RemoteUser cfg), S (RemoteHost cfg), S (RemoteUploadPath cfg)] w
      in case createSSHClient ev cfg w0 of
           (Some e, w1) \<Rightarrow> (Some (Errorf ''failed to create SSH client: %w'' [E e]), w1)
         | (None, w1) \<Rightarrow>
             (case (case scpUpload ev cfg tarballPath w1 of
                      (Some e, w') \<Rightarrow> (Some (Errorf ''SCP upload failed: %w'' [E e]), w')
                    | (None, w') \<Rightarrow> (None, logf INFO ''Tarball uploaded successfully'' [] w')) of
                (r, w2) \<Rightarrow> (r, snd (ssh_do ev ClientClose w2))))"

definition executePostBuildCommands ::
  "env \<Rightarrow> UploaderConfig \<Rightarrow> world \<Rightarrow> error option \<times> world" where
  "executePostBuildCommands ev cfg w =
     (if length (PostBuildCommands cfg) = 0 then (None, w)
      else ExecuteCommands ev (PostBuildCommands cfg) (5 * Minute)
             (logf INFO ''Executing post-build commands...'' [] w))"

definition Uploader_cleanupTarball :: "env \<Rightarrow> path \<Rightarrow> world \<Rightarrow> error option \<times> world" where
  "Uploader_cleanupTarball ev tarballPath w =
     os_Remove ev tarballPath (logf INFO ''Cleaning up tarball: %s'' [S tarballPath] w)"

definition Uploader_Run :: "env \<Rightarrow> UploaderConfig \<Rightarrow> world \<Rightarrow> error option \<times> world" where
  "Uploader_Run ev cfg w =
     (case executePreBuildCommands ev cfg (logf INFO ''Starting uploader workflow...'' [] w) of
        (Some e, w1) \<Rightarrow> (Some (Errorf ''pre-build commands failed: %w'' [E e]), w1)
      | (None, w1) \<Rightarrow>
     (case buildDockerImage ev cfg w1 of
        (Some e, w2) \<Rightarrow> (Some (Errorf ''docker build failed: %w'' [E e]), w2)
      | (None, w2) \<Rightarrow>
     (case createTarball ev cfg w2 of
        (Inl e, w3) \<Rightarrow> (Some (Errorf ''tarball creation failed: %w'' [E e]), w3)
      | (Inr tarballPath, w3) \<Rightarrow>
     (case uploadTarball ev cfg tarballPath w3 of
        (Some e, w4) \<Rightarrow> (Some (Errorf ''upload failed: %w'' [E e]), w4)
      | (None, w4) \<Rightarrow>
     (case executePostBuildCommands ev cfg w4 of
        (Some e, w5) \<Rightarrow> (Some (Errorf ''post-build commands failed: %w'' [E e]), w5)
      | (None, w5) \<Rightarrow>
          (let w6 = (case Uploader_cleanupTarball ev tarballPath w5 of
                       (Some e, w') \<Rightarrow> logf WARN ''Failed to cleanup tarball: %v'' [E e] w'
                     | (None, w') \<Rightarrow> w')
           in (None, logf INFO ''Uploader workflow completed successfully'' [] w6)))))))"

section \<open>Vocabulary of the properties\<close>

text \<open>
  Projections of the trace: the commands spawned (with deadline and result), the files
  the program asked to remove, the operations on the secure session, the logger calls.
\<close>

fun spawn_of :: "event \<Rightarrow> (string \<times> duration \<times> run_result) list" where
  "spawn_of (Spawn c t r) = [(c, t, r)]"
| "spawn_of _ = []"

fun remove_of :: "event \<Rightarrow> path list" where
  "remove_of (Remove p r) = [p]"
| "remove_of _ = []"

fun ssh_of :: "event \<Rightarrow> (ssh_op \<times> string option) list" where
  "ssh_of (Ssh op r) = [(op, r)]"
| "ssh_of _ = []"

fun is_log :: "event \<Rightarrow> bool" where
  "is_log (Log l m a) = True"
| "is_log _ = False"

definition spawns :: "world \<Rightarrow> (string \<times> duration \<times> run_result) list" where
  "spawns w = concat (map spawn_of (trace w))"

definition removes :: "world \<Rightarrow> path list" where
  "removes w = concat (map remove_of (trace w))"

definition ssh_ops :: "world \<Rightarrow> (ssh_op \<times> string option) list" where
  "ssh_ops w = concat (map ssh_of (trace w))"

definition actions :: "world \<Rightarrow> event list" where
  "actions w = filter (\<lambda>e. \<not> is_log e) (trace w)"

text \<open>The outcomes of a command, as the specification names them.\<close>

definition succeeded :: "run_result \<Rightarrow> bool" where
  "succeeded r = (\<not> deadline_exceeded r \<and> run_err r = None)"

definition TimedOut :: "string \<Rightarrow> duration \<Rightarrow> error" where
  "TimedOut command timeout = Errorf ''command timed out after %v: %s'' [D timeout, S command]"

definition NonZeroExit :: "string \<Rightarrow> string \<Rightarrow> error" where
  "NonZeroExit m out = Errorf ''command failed: %s, output: %s'' [S m, S out]"

definition command_error :: "string \<Rightarrow> duration \<Rightarrow> run_result \<Rightarrow> error option" where
  "command_error command timeout r =
     (if deadline_exceeded r then Some (TimedOut command timeout)
      else map_option (\<lambda>m. NonZeroExit m (combined_output r)) (run_err r))"

definition nonblank :: "string list \<Rightarrow> string list" where
  "nonblank commands = filter (\<lambda>c. TrimSpace c \<noteq> '''') commands"

text \<open>
  The steps of one reconciliation cycle, each in the world the steps before it leave
  when none of them aborts the cycle: what \<open>processTarball\<close> logs first, then the
  pre-load hooks, the image load, the stop and removal of the old container, the start of
  the new one, the post-load hooks, and the removal of the archive.
\<close>

definition cycle_start :: "path \<Rightarrow> world \<Rightarrow> world" where
  "cycle_start p w =
     (let w0 = logf INFO ''Processing tarball: %s'' [S p] w
      in case GetFileSize w0 p of
           Inl e \<Rightarrow> logf WARN ''Failed to get tarball size: %v'' [E e] w0
         | Inr sz \<Rightarrow> logf INFO ''Processing tarball: %s (%s)'' [S (Base p), B sz] w0)"

definition pre_step :: "env \<Rightarrow> WatcherConfig \<Rightarrow> path \<Rightarrow> world \<Rightarrow> error option \<times> world" where
  "pre_step ev cfg p w = executePreLoadCommands ev cfg (cycle_start p w)"

definition load_step :: "env \<Rightarrow> WatcherConfig \<Rightarrow> path \<Rightarrow> world \<Rightarrow> error option \<times> world" where
  "load_step ev cfg p w = loadDockerImage ev p (snd (pre_step ev cfg p w))"

definition stop_step :: "env \<Rightarrow> WatcherConfig \<Rightarrow> path \<Rightarrow> world \<Rightarrow> error option \<times> world" where
  "stop_step ev cfg p w = stopAndRemoveContainer ev cfg (snd (load_step ev cfg p w))"

definition start_step :: "env \<Rightarrow> WatcherConfig \<Rightarrow> path \<Rightarrow> world \<Rightarrow> error option \<times> world" where
  "start_step ev cfg p w = startContainer ev cfg (snd (stop_step ev cfg p w))"

definition post_step :: "env \<Rightarrow> WatcherConfig \<Rightarrow> path \<Rightarrow> world \<Rightarrow> error option \<times> world" where
  "post_step ev cfg p w = executePostLoadCommands ev cfg (snd (start_step ev cfg p w))"

definition cleanup_step :: "env \<Rightarrow> WatcherConfig \<Rightarrow> path \<Rightarrow> world \<Rightarrow> error option \<times> world" where
  "cleanup_step ev cfg p w =
     Watcher_cleanupTarball ev p
       (case post_step ev cfg p w of
          (Some e, w') \<Rightarrow> logf WARN ''Post-load commands failed: %v'' [E e] w'
        | (None, w') \<Rightarrow> w')"

text \<open>The commands of a cycle and the results of the stop and the removal.\<close>

definition stop_command :: "WatcherConfig \<Rightarrow> string" where
  "stop_command cfg = ''docker stop '' @ ContainerName cfg"

definition rm_command :: "WatcherConfig \<Rightarrow> string" where
  "rm_command cfg = ''docker rm '' @ ContainerName cfg"

definition stop_result :: "env \<Rightarrow> WatcherConfig \<Rightarrow> world \<Rightarrow> run_result" where
  "stop_result ev cfg w =
     fst (sh ev (logf INFO ''Stopping and removing existing container: %s''
                   [S (ContainerName cfg)] w)
            (stop_command cfg) (30 * Second))"

definition rm_result :: "env \<Rightarrow> WatcherConfig \<Rightarrow> world \<Rightarrow> run_result" where
  "rm_result ev cfg w =
     (let w0 = logf INFO ''Stopping and removing existing container: %s''
                 [S (ContainerName cfg)] w;
          (out, e, w1) = ExecuteCommand ev (stop_command cfg) (30 * Second) w0;
          w2 = (case e of
                  Some x \<Rightarrow> logf DEBUG ''Failed to stop container (may not exist): %v'' [E x] w1
                | None \<Rightarrow> logf DEBUG ''Docker stop output: %s'' [S (TrimSpace out)] w1)
      in fst (sh ev w2 (rm_command cfg) (30 * Second)))"

text \<open>
  What \<open>handleFileEvent\<close> does with an event that has qualified, from the world in which
  the event has been noted at debug level: it announces the archive, waits two seconds,
  runs the cycle on the event's path and reports the cycle's error. The kind of the
  event is not an argument.
\<close>

definition run_cycle :: "env \<Rightarrow> WatcherConfig \<Rightarrow> string \<Rightarrow> world \<Rightarrow> world" where
  "run_cycle ev cfg name w1 =
     (let w2 = logf INFO ''New tarball detected: %s'' [S name] w1;
          w3 = emit (Sleep (2 * Second)) (w2\<lparr>files := meanwhile ev w2 (2 * Second)\<rparr>)
      in case processTarball ev cfg name w3 of
           (Some e, w4) \<Rightarrow> logf ERROR ''Failed to process tarball %s: %v'' [S name, E e] w4
         | (None, w4) \<Rightarrow> w4)"

text \<open>
  For the secure session: the authentication methods \<open>createSSHClient\<close> builds from the
  configured key (or the error of reading or parsing it), the path of the known-hosts
  file, the address it dials, and the bytes that reached the session's input (the data of
  the writes that succeeded, in order).
\<close>

definition key_auth :: "env \<Rightarrow> UploaderConfig \<Rightarrow> world \<Rightarrow> error + auth_method list" where
  "key_auth ev cfg w =
     (if RemoteKeyPath cfg \<noteq> ''''
      then (case files w (RemoteKeyPath cfg) of
              None \<Rightarrow>
                Inl (Errorf ''failed to read private key: %w''
                       [E (Foreign ''open: no such file or directory'')])
            | Some key \<Rightarrow>
                (case parse_key_err ev (content key) of
                   Some m \<Rightarrow> Inl (Errorf ''failed to parse private key: %w'' [E (Foreign m)])
                 | None \<Rightarrow> Inr [PublicKeys (content key)]))
      else Inr [])"

definition known_hosts_path :: "env \<Rightarrow> path" where
  "known_hosts_path ev = Join ev [home ev, ''.ssh'', ''known_hosts'']"

definition remote_addr :: "UploaderConfig \<Rightarrow> string" where
  "remote_addr cfg = RemoteHost cfg @ '':'' @ fmt_d (RemotePort cfg)"

definition dial_op :: "UploaderConfig \<Rightarrow> auth_method list \<Rightarrow> host_key_callback \<Rightarrow> ssh_op" where
  "dial_op cfg auth callback =
     Dial ''tcp'' (remote_addr cfg) (ClientConfig (RemoteUser cfg) auth callback (30 * Second))"

definition dial :: "env \<Rightarrow> ssh_op \<Rightarrow> world \<Rightarrow> error option \<times> world" where
  "dial ev op w =
     (map_option (\<lambda>m. Errorf ''failed to connect to SSH server: %w'' [E (Foreign m)])
        (ssh_err ev w op),
      emit (Ssh op (ssh_err ev w op)) w)"

fun written :: "ssh_op \<times> string option \<Rightarrow> string" where
  "written (StdinWrite d, None) = d"
| "written (StdinCopy d, None) = d"
| "written _ = ''''"

definition stdin_stream :: "(ssh_op \<times> string option) list \<Rightarrow> string" where
  "stdin_stream ops = concat (map written ops)"

text \<open>
  The steps of one run of the uploader, each in the world the steps before it leave when
  none of them ends the run; and, for the export, the path of the archive, the command
  that writes it and the world in which that command runs.
\<close>

definition prebuild_step :: "env \<Rightarrow> UploaderConfig \<Rightarrow> world \<Rightarrow> error option \<times> world" where
  "prebuild_step ev cfg w =
     executePreBuildCommands ev cfg (logf INFO ''Starting uploader workflow...'' [] w)"

definition build_step :: "env \<Rightarrow> UploaderConfig \<Rightarrow> world \<Rightarrow> error option \<times> world" where
  "build_step ev cfg w = buildDockerImage ev cfg (snd (prebuild_step ev cfg w))"

definition tarball_step :: "env \<Rightarrow> UploaderConfig \<Rightarrow> world \<Rightarrow> (error + path) \<times> world" where
  "tarball_step ev cfg w = createTarball ev cfg (snd (build_step ev cfg w))"

definition upload_step ::
  "env \<Rightarrow> UploaderConfig \<Rightarrow> path \<Rightarrow> world \<Rightarrow> error option \<times> world" where
  "upload_step ev cfg p w = uploadTarball ev cfg p (snd (tarball_step ev cfg w))"

definition postbuild_step ::
  "env \<Rightarrow> UploaderConfig \<Rightarrow> path \<Rightarrow> world \<Rightarrow> error option \<times> world" where
  "postbuild_step ev cfg p w = executePostBuildCommands ev cfg (snd (upload_step ev cfg p w))"

definition tarball_path :: "env \<Rightarrow> UploaderConfig \<Rightarrow> world \<Rightarrow> path" where
  "tarball_path ev cfg w =
     (let name = ImageName cfg @ ''_'' @ ImageTag cfg @ ''_''
                   @ now ev (logf INFO ''Creating tarball for image: %s:%s''
                               [S (ImageName cfg), S (ImageTag cfg)] w)
                   @ ''.tar''
      in if TarballPath cfg \<noteq> '''' then Join ev [TarballPath cfg, name] else name)"

definition export_command :: "UploaderConfig \<Rightarrow> path \<Rightarrow> string" where
  "export_command cfg p = ''docker save '' @ ImageName cfg @ '':'' @ ImageTag cfg @ '' -o '' @ p"

definition export_world :: "env \<Rightarrow> UploaderConfig \<Rightarrow> world \<Rightarrow> world" where
  "export_world ev cfg w =
     (let w0 = logf INFO ''Creating tarball for image: %s:%s''
                 [S (ImageName cfg), S (ImageTag cfg)] w
      in if TarballPath cfg \<noteq> '''' then snd (EnsureDir ev (TarballPath cfg) w0) else w0)"

section \<open>A small environment to run the model in\<close>

text \<open>
  In \<open>demo_env bad\<close> the command \<open>sleep 5\<close> overruns its deadline, the commands listed
  in \<open>bad\<close> exit with status 1, and every other command succeeds; nothing else fails and
  no command touches the files.
\<close>

definition demo_result :: "string list \<Rightarrow> string \<Rightarrow> run_result" where
  "demo_result bad c =
     (if c = ''sleep 5'' then RunResult ''partial'' (Some ''signal: killed'') True
      else if c \<in> set bad then RunResult ''oops'' (Some ''exit status 1'') False
      else RunResult ''ok'' None False)"

definition demo_sh ::
  "string list \<Rightarrow> world \<Rightarrow> string \<Rightarrow> duration \<Rightarrow> run_result \<times> (path \<Rightarrow> fileinfo option)" where
  "demo_sh bad w c t = (demo_result bad c, files w)"

fun demo_join :: "string list \<Rightarrow> string" where
  "demo_join [] = ''''"
| "demo_join [x] = x"
| "demo_join (x # xs) = x @ ''/'' @ demo_join xs"

definition demo_env :: "string list \<Rightarrow> env" where
  "demo_env bad =
     \<lparr>sh = demo_sh bad,
      meanwhile = (\<lambda>w t. files w),
      fstat_err = (\<lambda>w p. None),
      mkdir_err = (\<lambda>w p. None),
      remove_err = (\<lambda>w p. None),
      ssh_err = (\<lambda>w op. None),
      now = (\<lambda>w. ''20240704-120000''),
      home = ''/home/deploy'',
      Join = demo_join,
      parse_key_err = (\<lambda>k. None),
      known_hosts_err = (\<lambda>k. None)\<rparr>"

definition demo_world :: world where
  "demo_world = \<lparr>files = (\<lambda>p. None), trace = []\<rparr>"

definition demo_failure :: error where
  "demo_failure = NonZeroExit ''exit status 1'' ''oops''"

text \<open>
  The watcher of the specification's scenario: a container \<open>web\<close>, port 8080 bound to
  80, restarted unless stopped, with one hook before and one after the load; and a
  world in which the archive has arrived.
\<close>

definition web_cfg :: WatcherConfig where
  "web_cfg =
     \<lparr>WatchDirectory = ''/up'', ContainerName = ''web'', ContainerPort = [''8080:80''],
      ContainerEnv = [], ContainerVolumes = [], PreLoadCommands = [''pre''],
      PostLoadCommands = [''post''], RestartPolicy = ''unless-stopped''\<rparr>"

definition web_run :: string where
  "web_run = ''docker run -d --name web --restart unless-stopped -p 8080:80 web''"

definition archive_world :: world where
  "archive_world =
     \<lparr>files = (\<lambda>p. if p = ''/up/web.tar'' then Some (File 420 ''data'') else None),
      trace = []\<rparr>"

text \<open>
  In \<open>env_stale\<close> the stop and the removal of the old container and the post-load hook
  fail, and the archive cannot be deleted.
\<close>

definition env_stale :: env where
  "env_stale = (demo_env [''docker stop web'', ''docker rm web'', ''post''])
                 \<lparr>remove_err := (\<lambda>w p. Some ''permission denied'')\<rparr>"

text \<open>
  The uploader of a host \<open>deploy.example\<close>, with a key and, in \<open>trusting_world\<close>, a
  known-hosts file; in \<open>env_garbled\<close> that file does not parse, in \<open>env_half_closed\<close>
  closing the session's input fails, and in \<open>env_remote_exit\<close> the remote command exits
  with status 1.
\<close>

definition up_cfg :: UploaderConfig where
  "up_cfg =
     \<lparr>DockerBuildPath = ''.'', ImageName = ''web'', ImageTag = ''latest'',
      TarballPath = ''/out'', RemoteHost = ''deploy.example'', RemotePort = 22,
      RemoteUser = ''deploy'', RemoteKeyPath = ''/keys/id'', RemoteUploadPath = ''/up'',
      BuildCommand = '''', PreBuildCommands = [''make test''],
      PostBuildCommands = [''notify'']\<rparr>"

definition key_world :: world where
  "key_world =
     \<lparr>files = (\<lambda>p. if p = ''/keys/id'' then Some (File 384 ''KEY'') else None),
      trace = []\<rparr>"

definition trusting_world :: world where
  "trusting_world =
     \<lparr>files = (\<lambda>p. if p = ''/keys/id'' then Some (File 384 ''KEY'')
                    else if p = ''/home/deploy/.ssh/known_hosts''
                    then Some (File 420 ''deploy.example ssh-ed25519 AAAA'')
                    else None),
      trace = []\<rparr>"

definition env_garbled :: env where
  "env_garbled = (demo_env [])\<lparr>known_hosts_err := (\<lambda>k. Some ''illegal base64 data'')\<rparr>"

definition env_half_closed :: env where
  "env_half_closed =
     (demo_env [])\<lparr>ssh_err := (\<lambda>w op. if op = CloseStdin then Some ''EOF'' else None)\<rparr>"

definition env_remote_exit :: env where
  "env_remote_exit =
     (demo_env [])\<lparr>ssh_err := (\<lambda>w op. if op = Wait then Some ''Process exited with status 1''
                                       else None)\<rparr>"

section \<open>Properties of the command executor\<close>

lemma spawns_emit: "spawns (emit e w) = spawns w @ spawn_of e"
  by (simp add: spawns_def emit_def)

lemma spawns_logf [simp]: "spawns (logf l m a w) = spawns w"
  by (simp add: logf_def spawns_emit)

lemma spawns_files [simp]: "spawns (w\<lparr>files := fs\<rparr>) = spawns w"
  by (simp add: spawns_def)

lemma command_error_succeeded: "command_error c t r = None \<longleftrightarrow> succeeded r"
  by (simp add: command_error_def succeeded_def)

lemma ExecuteCommand_eq:
  "ExecuteCommand ev c t w =
     (if deadline_exceeded (fst (sh ev w c t)) then '''' else combined_output (fst (sh ev w c t)),
      command_error c t (fst (sh ev w c t)),
      emit (Spawn c t (fst (sh ev w c t))) (w\<lparr>files := snd (sh ev w c t)\<rparr>))"
  by (auto simp: ExecuteCommand_def Let_def command_error_def TimedOut_def NonZeroExit_def
      split: prod.splits option.splits)

lemma ExecuteCommand_spawns:
  assumes "ExecuteCommand ev c t w = (out, e, w')"
  shows "spawns w' = spawns w @ [(c, t, fst (sh ev w c t))]"
    and "command_error c t (fst (sh ev w c t)) = e"
  using assms by (auto simp: ExecuteCommand_eq spawns_emit)

text \<open>
  C10. When the deadline has been exceeded, \<open>ExecuteCommand\<close> returns the empty string
  and the time-out error, whatever output the command had produced; when the command fails
  within its deadline, it returns the captured output together with the failure, which
  carries that output too.
\<close>

theorem ExecuteCommand_timeout_drops_output:
  assumes "sh ev w command timeout = (r, fs)"
  shows "(deadline_exceeded r \<longrightarrow>
            fst (ExecuteCommand ev command timeout w) = '''' \<and>
            fst (snd (ExecuteCommand ev command timeout w)) = Some (TimedOut command timeout)) \<and>
         (\<not> deadline_exceeded r \<and> run_err r = Some m \<longrightarrow>
            fst (ExecuteCommand ev command timeout w) = combined_output r \<and>
            fst (snd (ExecuteCommand ev command timeout w))
              = Some (NonZeroExit m (combined_output r)))"
  using assms by (simp add: ExecuteCommand_eq command_error_def)

theorem ExecuteCommand_timeout_drops_output_witness:
  "sh (demo_env [''false'']) demo_world ''sleep 5'' Second
     = (RunResult ''partial'' (Some ''signal: killed'') True, files demo_world) \<and>
   fst (ExecuteCommand (demo_env [''false'']) ''sleep 5'' Second demo_world) = '''' \<and>
   fst (snd (ExecuteCommand (demo_env [''false'']) ''sleep 5'' Second demo_world))
     = Some (TimedOut ''sleep 5'' Second) \<and>
   sh (demo_env [''false'']) demo_world ''false'' Second
     = (RunResult ''oops'' (Some ''exit status 1'') False, files demo_world) \<and>
   fst (ExecuteCommand (demo_env [''false'']) ''false'' Second demo_world) = ''oops'' \<and>
   fst (snd (ExecuteCommand (demo_env [''false'']) ''false'' Second demo_world))
     = Some (NonZeroExit ''exit status 1'' ''oops'')"
proof -
  have a: "sh (demo_env [''false'']) demo_world ''sleep 5'' Second
             = (RunResult ''partial'' (Some ''signal: killed'') True, files demo_world)"
    by (simp add: demo_env_def demo_sh_def demo_result_def)
  have b: "sh (demo_env [''false'']) demo_world ''false'' Second
             = (RunResult ''oops'' (Some ''exit status 1'') False, files demo_world)"
    by (simp add: demo_env_def demo_sh_def demo_result_def)
  show ?thesis
    using ExecuteCommand_timeout_drops_output [OF a, of "''x''"]
      ExecuteCommand_timeout_drops_output [OF b, of "''exit status 1''"] a b
    by simp
qed

lemma nonblank_Cons:
  "nonblank (cmd # commands) =
     (if TrimSpace cmd = '''' then nonblank commands else cmd # nonblank commands)"
  by (simp add: nonblank_def)

lemma ExecuteCommands_trace:
  "ExecuteCommands ev commands timeout w = (res, w') \<Longrightarrow>
   \<exists>rs. length rs \<le> length (nonblank commands) \<and>
     spawns w' = spawns w @ map (\<lambda>(c, r). (c, timeout, r)) (zip (nonblank commands) rs) \<and>
     (\<forall>r \<in> set (butlast rs). succeeded r) \<and>
     (case res of
        None \<Rightarrow> length rs = length (nonblank commands) \<and> (\<forall>r \<in> set rs. succeeded r)
      | Some e \<Rightarrow> rs \<noteq> [] \<and>
          command_error (nonblank commands ! (length rs - 1)) timeout (last rs) = Some e) \<and>
     (nonblank commands = [] \<longrightarrow> res = None \<and> w' = w)"
proof (induction commands arbitrary: w)
  case Nil
  then show ?case by (simp add: nonblank_def)
next
  case (Cons cmd commands)
  show ?case
  proof (cases "TrimSpace cmd = ''''")
    case True
    with Cons.prems have *: "ExecuteCommands ev commands timeout w = (res, w')" by simp
    have nb: "nonblank (cmd # commands) = nonblank commands"
      using True by (simp add: nonblank_Cons)
    from Cons.IH [OF *] show ?thesis unfolding nb .
  next
    case False
    let ?w1 = "logf INFO ''Executing command: %s'' [S cmd] w"
    obtain out e w2 where ex: "ExecuteCommand ev cmd timeout ?w1 = (out, e, w2)"
      by (cases "ExecuteCommand ev cmd timeout ?w1") auto
    let ?r = "fst (sh ev ?w1 cmd timeout)"
    note sp = ExecuteCommand_spawns [OF ex]
    have nb: "nonblank (cmd # commands) = cmd # nonblank commands"
      using False by (simp add: nonblank_Cons)
    show ?thesis
    proof (cases e)
      case (Some err)
      with Cons.prems False ex have r: "res = Some err"
        and w': "w' = logf ERROR ''Command failed: %s'' [E err] w2" by auto
      have ce: "command_error cmd timeout ?r = Some err" using sp(2) Some by simp
      show ?thesis unfolding nb r w'
        by (rule exI [of _ "[?r]"]) (simp add: sp(1) ce)
    next
      case None
      let ?w3 = "if TrimSpace out \<noteq> ''''
                 then logf DEBUG ''Command output: %s'' [S (TrimSpace out)] w2 else w2"
      from Cons.prems False ex None
      have "ExecuteCommands ev commands timeout ?w3 = (res, w')" by simp
      from Cons.IH [OF this] obtain rs where
        rs: "length rs \<le> length (nonblank commands)"
          "spawns w' = spawns ?w3 @ map (\<lambda>(c, r). (c, timeout, r)) (zip (nonblank commands) rs)"
          "\<forall>r \<in> set (butlast rs). succeeded r"
          "case res of
             None \<Rightarrow> length rs = length (nonblank commands) \<and> (\<forall>r \<in> set rs. succeeded r)
           | Some e \<Rightarrow> rs \<noteq> [] \<and>
               command_error (nonblank commands ! (length rs - 1)) timeout (last rs) = Some e"
        by blast
      have ok: "succeeded ?r" using sp(2) None by (simp add: command_error_succeeded)
      have s3: "spawns ?w3 = spawns w @ [(cmd, timeout, ?r)]" using sp(1) by simp
      have bl: "\<forall>x \<in> set (butlast (?r # rs)). succeeded x"
        using rs(3) ok by (cases rs) auto
      show ?thesis
      proof (cases res)
        case None
        with rs ok s3 bl show ?thesis
          by (intro exI [of _ "?r # rs"]) (simp add: nb)
      next
        case (Some e')
        with rs ok s3 bl show ?thesis
          by (intro exI [of _ "?r # rs"]) (simp add: nb nth_Cons')
      qed
    qed
  qed
qed

text \<open>
  C5. \<open>ExecuteCommands\<close> spawns a prefix of the non-blank commands of its list, in list
  order and each under the given deadline (\<open>rs\<close> lists what these runs did). Every run
  but the last succeeded. If the call returns no error, all non-blank commands were run
  and all succeeded; if it returns an error, the last command run failed and the error is
  that command's failure. When no command is non-blank (the empty list, or blank commands
  only), the call returns no error and leaves the world as it was: nothing is spawned and
  nothing is logged.
\<close>

theorem ExecuteCommands_sequential:
  "ExecuteCommands ev commands timeout w = (res, w') \<Longrightarrow>
   \<exists>rs. length rs \<le> length (nonblank commands) \<and>
     spawns w' = spawns w @ map (\<lambda>(c, r). (c, timeout, r)) (zip (nonblank commands) rs) \<and>
     (\<forall>r \<in> set (butlast rs). succeeded r) \<and>
     (case res of
        None \<Rightarrow> length rs = length (nonblank commands) \<and> (\<forall>r \<in> set rs. succeeded r)
      | Some e \<Rightarrow> rs \<noteq> [] \<and>
          command_error (nonblank commands ! (length rs - 1)) timeout (last rs) = Some e) \<and>
     (nonblank commands = [] \<longrightarrow> res = None \<and> w' = w)"
  by (rule ExecuteCommands_trace)

lemmas demo_eval =
  demo_env_def demo_sh_def demo_result_def demo_world_def ExecuteCommand_eq command_error_def
  TrimSpace_def TrimLeft.simps TrimRight.simps leading_space_def trailing_space_def
  space_codes_def List.map_filter_def logf_def emit_def spawns_def

theorem ExecuteCommands_sequential_witness:
  "(\<exists>res w'.
      ExecuteCommands (demo_env [''false'']) [''  '', ''echo a'', ''false'', ''echo b'']
        Second demo_world = (res, w') \<and>
      res = Some (NonZeroExit ''exit status 1'' ''oops'') \<and>
      map fst (spawns w') = [''echo a'', ''false''] \<and>
      (\<exists>rs. length rs \<le> 3 \<and>
         spawns w' = spawns demo_world
            @ map (\<lambda>(c, r). (c, Second, r)) (zip [''echo a'', ''false'', ''echo b''] rs) \<and>
         rs \<noteq> [] \<and>
         command_error ([''echo a'', ''false'', ''echo b''] ! (length rs - 1)) Second (last rs)
           = res)) \<and>
   ExecuteCommands (demo_env [''false'']) ['' '', ''''] Second demo_world = (None, demo_world)"
proof -
  define X where "X = ExecuteCommands (demo_env [''false''])
     [''  '', ''echo a'', ''false'', ''echo b''] Second demo_world"
  have h: "ExecuteCommands (demo_env [''false'']) [''  '', ''echo a'', ''false'', ''echo b'']
             Second demo_world = (fst X, snd X)"
    by (simp add: X_def)
  have nb: "nonblank [''  '', ''echo a'', ''false'', ''echo b''] = [''echo a'', ''false'', ''echo b'']"
    by (simp add: nonblank_def demo_eval)
  have r: "fst X = Some (NonZeroExit ''exit status 1'' ''oops'')"
    unfolding X_def by (simp add: demo_eval NonZeroExit_def)
  have s: "map fst (spawns (snd X)) = [''echo a'', ''false'']"
    unfolding X_def by (simp add: demo_eval)
  have b: "ExecuteCommands (demo_env [''false'']) ['' '', ''''] Second demo_world
             = (None, demo_world)"
    by (simp add: demo_eval)
  from ExecuteCommands_sequential [OF h] obtain rs where
    rs: "length rs \<le> length (nonblank [''  '', ''echo a'', ''false'', ''echo b''])"
      "spawns (snd X) = spawns demo_world
        @ map (\<lambda>(c, r). (c, Second, r))
            (zip (nonblank [''  '', ''echo a'', ''false'', ''echo b'']) rs)"
      "case fst X of
         None \<Rightarrow> length rs = length (nonblank [''  '', ''echo a'', ''false'', ''echo b''])
                  \<and> (\<forall>r \<in> set rs. succeeded r)
       | Some e \<Rightarrow> rs \<noteq> [] \<and>
           command_error (nonblank [''  '', ''echo a'', ''false'', ''echo b'']
                            ! (length rs - 1)) Second (last rs) = Some e"
    by blast
  have c1: "length rs \<le> 3" using rs(1) unfolding nb by simp
  have c2: "spawns (snd X) = spawns demo_world
        @ map (\<lambda>(c, r). (c, Second, r)) (zip [''echo a'', ''false'', ''echo b''] rs)"
    using rs(2) unfolding nb .
  have c3: "rs \<noteq> [] \<and>
      command_error ([''echo a'', ''false'', ''echo b''] ! (length rs - 1)) Second (last rs)
        = fst X"
    using rs(3) unfolding nb r by simp
  show ?thesis
  proof (intro conjI)
    show "\<exists>res w'. ExecuteCommands (demo_env [''false''])
        [''  '', ''echo a'', ''false'', ''echo b''] Second demo_world = (res, w') \<and>
      res = Some (NonZeroExit ''exit status 1'' ''oops'') \<and>
      map fst (spawns w') = [''echo a'', ''false''] \<and>
      (\<exists>rs. length rs \<le> 3 \<and>
         spawns w' = spawns demo_world
            @ map (\<lambda>(c, r). (c, Second, r)) (zip [''echo a'', ''false'', ''echo b''] rs) \<and>
         rs \<noteq> [] \<and>
         command_error ([''echo a'', ''false'', ''echo b''] ! (length rs - 1)) Second (last rs)
           = res)"
    proof (rule exI [of _ "fst X"], rule exI [of _ "snd X"], intro conjI)
      show "\<exists>rs. length rs \<le> 3 \<and>
         spawns (snd X) = spawns demo_world
            @ map (\<lambda>(c, r). (c, Second, r)) (zip [''echo a'', ''false'', ''echo b''] rs) \<and>
         rs \<noteq> [] \<and>
         command_error ([''echo a'', ''false'', ''echo b''] ! (length rs - 1)) Second (last rs)
           = fst X"
        using c1 c2 c3 by (intro exI [of _ rs]) simp
    qed (rule h r s)+
  qed (rule b)
qed

section \<open>How the steps change the world\<close>

lemma trace_emit [simp]: "trace (emit e w) = trace w @ [e]"
  by (simp add: emit_def)

lemma files_emit [simp]: "files (emit e w) = files w"
  by (simp add: emit_def)

lemma trace_logf [simp]: "trace (logf l m a w) = trace w @ [Log l m a]"
  by (simp add: logf_def)

lemma files_logf [simp]: "files (logf l m a w) = files w"
  by (simp add: logf_def)

lemma FileExists_logf [simp]: "FileExists (logf l m a w) p = FileExists w p"
  by (simp add: FileExists_def)

lemma GetFileSize_logf [simp]: "GetFileSize (logf l m a w) p = GetFileSize w p"
  by (simp add: GetFileSize_def)

lemma removes_emit: "removes (emit e w) = removes w @ remove_of e"
  by (simp add: removes_def)

lemma removes_logf [simp]: "removes (logf l m a w) = removes w"
  by (simp add: removes_def)

lemma removes_files [simp]: "removes (w\<lparr>files := fs\<rparr>) = removes w"
  by (simp add: removes_def)

lemma ssh_ops_emit: "ssh_ops (emit e w) = ssh_ops w @ ssh_of e"
  by (simp add: ssh_ops_def)

lemma ssh_ops_logf [simp]: "ssh_ops (logf l m a w) = ssh_ops w"
  by (simp add: ssh_ops_def)

lemma ssh_ops_files [simp]: "ssh_ops (w\<lparr>files := fs\<rparr>) = ssh_ops w"
  by (simp add: ssh_ops_def)

lemma actions_emit: "actions (emit e w) = actions w @ (if is_log e then [] else [e])"
  by (simp add: actions_def)

lemma actions_logf [simp]: "actions (logf l m a w) = actions w"
  by (simp add: actions_def)

lemma ExecuteCommand_removes [simp]:
  "removes (snd (snd (ExecuteCommand ev c t w))) = removes w"
  by (simp add: ExecuteCommand_eq removes_emit)

lemma ExecuteCommand_ssh_ops [simp]:
  "ssh_ops (snd (snd (ExecuteCommand ev c t w))) = ssh_ops w"
  by (simp add: ExecuteCommand_eq ssh_ops_emit)

lemma ExecuteCommands_removes [simp]:
  "removes (snd (ExecuteCommands ev commands t w)) = removes w"
proof (induction commands arbitrary: w)
  case Nil
  show ?case by simp
next
  case (Cons cmd commands)
  show ?case
    by (simp add: ExecuteCommand_eq Cons.IH removes_emit split: option.splits)
qed

lemma ExecuteCommands_ssh_ops [simp]:
  "ssh_ops (snd (ExecuteCommands ev commands t w)) = ssh_ops w"
proof (induction commands arbitrary: w)
  case Nil
  show ?case by simp
next
  case (Cons cmd commands)
  show ?case
    by (simp add: ExecuteCommand_eq Cons.IH ssh_ops_emit split: option.splits)
qed

section \<open>The command that starts the container\<close>

lemma foldl_flag:
  "foldl (\<lambda>cmd x. cmd @ flag @ x) acc xs = acc @ concat (map (\<lambda>x. flag @ x) xs)"
  by (induction xs arbitrary: acc) simp_all

lemma append_Cons_fun: "(@) (x # xs) = (\<lambda>ys. x # (xs @ ys))"
  by (rule ext) simp

lemma buildDockerRunCommand_eq:
  "buildDockerRunCommand cfg =
     ''docker run -d --name '' @ ContainerName cfg
       @ (if RestartPolicy cfg = '''' then '''' else '' --restart '' @ RestartPolicy cfg)
       @ concat (map (\<lambda>port. '' -p '' @ port) (ContainerPort cfg))
       @ concat (map (\<lambda>e. '' -e '' @ e) (ContainerEnv cfg))
       @ concat (map (\<lambda>volume. '' -v '' @ volume) (ContainerVolumes cfg))
       @ '' '' @ ContainerName cfg"
proof -
  have p: "\<And>acc xs. foldl (\<lambda>cmd port. cmd @ '' -p '' @ port) acc xs
             = acc @ concat (map (\<lambda>port. '' -p '' @ port) xs)"
    by (rule foldl_flag)
  have e: "\<And>acc xs. foldl (\<lambda>cmd e. cmd @ '' -e '' @ e) acc xs
             = acc @ concat (map (\<lambda>e. '' -e '' @ e) xs)"
    by (rule foldl_flag)
  have v: "\<And>acc xs. foldl (\<lambda>cmd volume. cmd @ '' -v '' @ volume) acc xs
             = acc @ concat (map (\<lambda>volume. '' -v '' @ volume) xs)"
    by (rule foldl_flag)
  show ?thesis
    unfolding buildDockerRunCommand_def extractImageNameFromTarball_def Let_def p e v
    by (simp add: append_Cons_fun)
qed

lemma startContainer_eq:
  "startContainer ev cfg w =
     (let w0 = logf INFO ''Starting new container: %s'' [S (ContainerName cfg)] w;
          run = buildDockerRunCommand cfg;
          r = fst (sh ev w0 run (2 * Minute));
          w1 = emit (Spawn run (2 * Minute) r) (w0\<lparr>files := snd (sh ev w0 run (2 * Minute))\<rparr>)
      in (command_error run (2 * Minute) r,
          if succeeded r
          then logf INFO ''Container started successfully: %s'' [S (ContainerName cfg)]
                 (logf DEBUG ''Docker run output: %s'' [S (TrimSpace (combined_output r))] w1)
          else w1))"
  by (auto simp: startContainer_def ExecuteCommand_eq Let_def command_error_succeeded [symmetric]
      succeeded_def command_error_def split: option.splits)

section \<open>The reconciliation cycle\<close>

lemma ExecuteCommand_world:
  assumes "ExecuteCommand ev c t w = (out, e, w')"
  shows "trace w' = trace w @ [Spawn c t (fst (sh ev w c t))]"
    and "files w' = snd (sh ev w c t)"
  using assms by (auto simp: ExecuteCommand_eq)

lemma stopAndRemoveContainer_facts:
  "fst (stopAndRemoveContainer ev cfg w) = None \<and>
   spawns (snd (stopAndRemoveContainer ev cfg w)) =
     spawns w @ [(stop_command cfg, 30 * Second, stop_result ev cfg w),
                 (rm_command cfg, 30 * Second, rm_result ev cfg w)] \<and>
   (command_error (stop_command cfg) (30 * Second) (stop_result ev cfg w) = Some e \<longrightarrow>
      Log DEBUG ''Failed to stop container (may not exist): %v'' [E e]
        \<in> set (trace (snd (stopAndRemoveContainer ev cfg w)))) \<and>
   (command_error (rm_command cfg) (30 * Second) (rm_result ev cfg w) = Some e \<longrightarrow>
      Log DEBUG ''Failed to remove container (may not exist): %v'' [E e]
        \<in> set (trace (snd (stopAndRemoveContainer ev cfg w))))"
proof -
  let ?w0 = "logf INFO ''Stopping and removing existing container: %s''
               [S (ContainerName cfg)] w"
  obtain out1 e1 w1 where x1:
    "ExecuteCommand ev (''docker stop '' @ ContainerName cfg) (30 * Second) ?w0 = (out1, e1, w1)"
    by (metis prod_cases3)
  define w1' where "w1' = (case e1 of
       Some x \<Rightarrow> logf DEBUG ''Failed to stop container (may not exist): %v'' [E x] w1
     | None \<Rightarrow> logf DEBUG ''Docker stop output: %s'' [S (TrimSpace out1)] w1)"
  obtain out2 e2 w2 where x2:
    "ExecuteCommand ev (''docker rm '' @ ContainerName cfg) (30 * Second) w1' = (out2, e2, w2)"
    by (metis prod_cases3)
  define w2' where "w2' = (case e2 of
       Some x \<Rightarrow> logf DEBUG ''Failed to remove container (may not exist): %v'' [E x] w2
     | None \<Rightarrow> logf DEBUG ''Docker remove output: %s'' [S (TrimSpace out2)] w2)"
  have res: "stopAndRemoveContainer ev cfg w = (None, w2')"
    unfolding stopAndRemoveContainer_def Let_def x1
    using x2 by (cases e1; cases e2; simp add: w1'_def w2'_def)
  have r1: "stop_result ev cfg w = fst (sh ev ?w0 (''docker stop '' @ ContainerName cfg) (30 * Second))"
    by (simp add: stop_result_def stop_command_def)
  have r2: "rm_result ev cfg w = fst (sh ev w1' (''docker rm '' @ ContainerName cfg) (30 * Second))"
    unfolding rm_result_def Let_def stop_command_def rm_command_def x1
    by (cases e1; simp add: w1'_def)
  note a1 = ExecuteCommand_spawns [OF x1] ExecuteCommand_world [OF x1]
  note a2 = ExecuteCommand_spawns [OF x2] ExecuteCommand_world [OF x2]
  have s1: "spawns w1' = spawns w @ [(stop_command cfg, 30 * Second, stop_result ev cfg w)]"
    using a1(1) by (cases e1; simp add: w1'_def r1 stop_command_def)
  have s2: "spawns w2' = spawns w1' @ [(rm_command cfg, 30 * Second, rm_result ev cfg w)]"
    using a2(1) by (cases e2; simp add: w2'_def r2 rm_command_def)
  have l1: "Log DEBUG ''Failed to stop container (may not exist): %v'' [E e] \<in> set (trace w1')"
    if h: "command_error (stop_command cfg) (30 * Second) (stop_result ev cfg w) = Some e"
  proof -
    have "e1 = Some e" using h a1(2) unfolding r1 stop_command_def by simp
    then show ?thesis by (simp add: w1'_def)
  qed
  have l2: "Log DEBUG ''Failed to remove container (may not exist): %v'' [E e] \<in> set (trace w2')"
    if h: "command_error (rm_command cfg) (30 * Second) (rm_result ev cfg w) = Some e"
  proof -
    have "e2 = Some e" using h a2(2) unfolding r2 rm_command_def by simp
    then show ?thesis by (simp add: w2'_def)
  qed
  have sub: "set (trace w1') \<subseteq> set (trace w2')"
    using a2(3) by (cases e2; auto simp add: w2'_def)
  show ?thesis
    using l1 l2 sub s1 s2 by (auto simp: res)
qed

lemma stopAndRemoveContainer_None: "fst (stopAndRemoveContainer ev cfg w) = None"
  using stopAndRemoveContainer_facts [of ev cfg w] by simp

lemma processTarball_steps:
  assumes "FileExists w p"
  shows "processTarball ev cfg p w =
     (case fst (pre_step ev cfg p w) of
        Some e \<Rightarrow> (Some (Errorf ''pre-load commands failed: %w'' [E e]), snd (pre_step ev cfg p w))
      | None \<Rightarrow>
     (case fst (load_step ev cfg p w) of
        Some e \<Rightarrow> (Some (Errorf ''failed to load Docker image: %w'' [E e]),
                    snd (load_step ev cfg p w))
      | None \<Rightarrow>
     (case fst (start_step ev cfg p w) of
        Some e \<Rightarrow> (Some (Errorf ''failed to start container: %w'' [E e]),
                    snd (start_step ev cfg p w))
      | None \<Rightarrow>
          (None,
           logf INFO ''Tarball processing completed successfully'' []
             (case cleanup_step ev cfg p w of
                (Some e, w') \<Rightarrow> logf WARN ''Failed to cleanup tarball: %v'' [E e] w'
              | (None, w') \<Rightarrow> w')))))"
proof -
  have s: "stopAndRemoveContainer ev cfg x = (None, snd (stopAndRemoveContainer ev cfg x))" for x
    using stopAndRemoveContainer_None [of ev cfg x]
    by (cases "stopAndRemoveContainer ev cfg x") simp
  obtain r1 w1 where e1: "executePreLoadCommands ev cfg (cycle_start p w) = (r1, w1)"
    by fastforce
  obtain r2 w2 where e2: "loadDockerImage ev p w1 = (r2, w2)"
    by fastforce
  obtain w3 where e3: "stopAndRemoveContainer ev cfg w2 = (None, w3)"
    using s by blast
  obtain r4 w4 where e4: "startContainer ev cfg w3 = (r4, w4)"
    by fastforce
  obtain r5 w5 where e5: "executePostLoadCommands ev cfg w4 = (r5, w5)"
    by fastforce
  have pt: "processTarball ev cfg p w =
     (case executePreLoadCommands ev cfg (cycle_start p w) of
                 (Some e, w2) \<Rightarrow> (Some (Errorf ''pre-load commands failed: %w'' [E e]), w2)
               | (None, w2) \<Rightarrow>
            (case loadDockerImage ev p w2 of
                 (Some e, w3) \<Rightarrow> (Some (Errorf ''failed to load Docker image: %w'' [E e]), w3)
               | (None, w3) \<Rightarrow>
            (let w4 = (case stopAndRemoveContainer ev cfg w3 of
                         (Some e, w') \<Rightarrow>
                           logf WARN ''Failed to stop/remove existing container: %v'' [E e] w'
                       | (None, w') \<Rightarrow> w')
             in case startContainer ev cfg w4 of
                  (Some e, w5) \<Rightarrow> (Some (Errorf ''failed to start container: %w'' [E e]), w5)
                | (None, w5) \<Rightarrow>
             (let w6 = (case executePostLoadCommands ev cfg w5 of
                          (Some e, w') \<Rightarrow> logf WARN ''Post-load commands failed: %v'' [E e] w'
                        | (None, w') \<Rightarrow> w');
                  w7 = (case Watcher_cleanupTarball ev p w6 of
                          (Some e, w') \<Rightarrow> logf WARN ''Failed to cleanup tarball: %v'' [E e] w'
                        | (None, w') \<Rightarrow> w')
              in (None, logf INFO ''Tarball processing completed successfully'' [] w7)))))"
    using assms unfolding processTarball_def cycle_start_def by (simp add: Let_def)
  show ?thesis
    unfolding pt cleanup_step_def post_step_def start_step_def stop_step_def
      load_step_def pre_step_def
    by (cases r1; cases r2; cases r4; simp add: e1 e2 e3 e4 e5 Let_def)
qed


lemma os_Remove_trace:
  "\<exists>r. trace (snd (os_Remove ev p w)) = trace w @ [Remove p r] \<and>
       fst (os_Remove ev p w) = map_option Foreign r"
  by (simp add: os_Remove_def Let_def)

lemma os_Remove_spawns [simp]: "spawns (snd (os_Remove ev p w)) = spawns w"
  by (simp add: os_Remove_def Let_def spawns_emit)

lemma Watcher_cleanupTarball_spawns [simp]:
  "spawns (snd (Watcher_cleanupTarball ev p w)) = spawns w"
  by (simp add: Watcher_cleanupTarball_def)

lemma Watcher_cleanupTarball_keeps_log:
  "x \<in> set (trace w) \<Longrightarrow> x \<in> set (trace (snd (Watcher_cleanupTarball ev p w)))"
  using os_Remove_trace [of ev p "logf INFO ''Cleaning up tarball: %s'' [S p] w"]
  by (auto simp: Watcher_cleanupTarball_def)

lemma executePostLoadCommands_spawns:
  "\<exists>rs. spawns (snd (executePostLoadCommands ev cfg w)) =
     spawns w @ map (\<lambda>(c, r). (c, 5 * Minute, r)) (zip (nonblank (PostLoadCommands cfg)) rs)"
proof (cases "length (PostLoadCommands cfg) = 0")
  case True
  then show ?thesis
    by (intro exI [of _ "[]"]) (simp add: executePostLoadCommands_def)
next
  case False
  let ?w = "logf INFO ''Executing post-load commands...'' [] w"
  have "ExecuteCommands ev (PostLoadCommands cfg) (5 * Minute) ?w
          = (fst (executePostLoadCommands ev cfg w), snd (executePostLoadCommands ev cfg w))"
    using False by (simp add: executePostLoadCommands_def)
  from ExecuteCommands_trace [OF this] show ?thesis by auto
qed

lemma cycle_success:
  assumes ex: "FileExists w p"
    and ok: "fst (pre_step ev cfg p w) = None" "fst (load_step ev cfg p w) = None"
      "fst (start_step ev cfg p w) = None"
  shows "fst (processTarball ev cfg p w) = None \<and>
       (fst (post_step ev cfg p w) = Some e \<longrightarrow>
          Log WARN ''Post-load commands failed: %v'' [E e]
            \<in> set (trace (snd (processTarball ev cfg p w)))) \<and>
       (fst (cleanup_step ev cfg p w) = Some e \<longrightarrow>
          Log WARN ''Failed to cleanup tarball: %v'' [E e]
            \<in> set (trace (snd (processTarball ev cfg p w)))) \<and>
       spawns (snd (processTarball ev cfg p w)) = spawns (snd (post_step ev cfg p w))"
proof -
  note st = processTarball_steps [OF ex, of ev cfg]
  have fin: "processTarball ev cfg p w =
        (None,
         logf INFO ''Tarball processing completed successfully'' []
           (case cleanup_step ev cfg p w of
              (Some e, w') \<Rightarrow> logf WARN ''Failed to cleanup tarball: %v'' [E e] w'
            | (None, w') \<Rightarrow> w'))"
    by (simp add: st ok)
  have post: "fst (post_step ev cfg p w) = Some e \<Longrightarrow>
      Log WARN ''Post-load commands failed: %v'' [E e]
        \<in> set (trace (snd (cleanup_step ev cfg p w)))"
    unfolding cleanup_step_def
    by (rule Watcher_cleanupTarball_keeps_log)
       (cases "post_step ev cfg p w", simp)
  have sp: "spawns (snd (cleanup_step ev cfg p w)) = spawns (snd (post_step ev cfg p w))"
    unfolding cleanup_step_def
    by (cases "post_step ev cfg p w") (simp split: option.splits)
  show ?thesis
    using post sp unfolding fin
    by (cases "cleanup_step ev cfg p w") (auto split: option.splits)
qed

text \<open>
  C1. In a cycle whose archive exists: a failure of the pre-load hooks, of the image load
  or of the container start makes \<open>processTarball\<close> return that failure, wrapped with the
  name of the step, and the world it returns is the world that step left, so no later
  step has run. When these three steps succeed \<open>processTarball\<close> returns no error,
  whatever the stop, the removal, the post-load hooks and the deletion of the archive
  did: a failure of the post-load hooks or of the deletion is passed to the logger at
  warning level; after the start no command is spawned but the post-load hooks, so
  nothing stops or removes the new container. The stop and the removal of the old
  container never return an error, and a failure of either is passed to the logger at
  debug level.
\<close>

theorem processTarball_fatal_and_best_effort:
  assumes "FileExists w p"
  shows
   "(fst (pre_step ev cfg p w) = Some e \<longrightarrow>
       processTarball ev cfg p w =
         (Some (Errorf ''pre-load commands failed: %w'' [E e]), snd (pre_step ev cfg p w))) \<and>
    (fst (pre_step ev cfg p w) = None \<and> fst (load_step ev cfg p w) = Some e \<longrightarrow>
       processTarball ev cfg p w =
         (Some (Errorf ''failed to load Docker image: %w'' [E e]), snd (load_step ev cfg p w))) \<and>
    (fst (pre_step ev cfg p w) = None \<and> fst (load_step ev cfg p w) = None \<and>
     fst (start_step ev cfg p w) = Some e \<longrightarrow>
       processTarball ev cfg p w =
         (Some (Errorf ''failed to start container: %w'' [E e]), snd (start_step ev cfg p w))) \<and>
    (fst (pre_step ev cfg p w) = None \<and> fst (load_step ev cfg p w) = None \<and>
     fst (start_step ev cfg p w) = None \<longrightarrow>
       fst (processTarball ev cfg p w) = None \<and>
       (fst (post_step ev cfg p w) = Some e \<longrightarrow>
          Log WARN ''Post-load commands failed: %v'' [E e]
            \<in> set (trace (snd (processTarball ev cfg p w)))) \<and>
       (fst (cleanup_step ev cfg p w) = Some e \<longrightarrow>
          Log WARN ''Failed to cleanup tarball: %v'' [E e]
            \<in> set (trace (snd (processTarball ev cfg p w)))) \<and>
       spawns (snd (processTarball ev cfg p w)) = spawns (snd (post_step ev cfg p w)) \<and>
       (\<exists>rs. spawns (snd (post_step ev cfg p w)) =
          spawns (snd (start_step ev cfg p w))
            @ map (\<lambda>(c, r). (c, 5 * Minute, r)) (zip (nonblank (PostLoadCommands cfg)) rs))) \<and>
    fst (stop_step ev cfg p w) = None \<and>
    spawns (snd (stop_step ev cfg p w)) =
      spawns (snd (load_step ev cfg p w))
        @ [(stop_command cfg, 30 * Second, stop_result ev cfg (snd (load_step ev cfg p w))),
           (rm_command cfg, 30 * Second, rm_result ev cfg (snd (load_step ev cfg p w)))] \<and>
    (command_error (stop_command cfg) (30 * Second)
        (stop_result ev cfg (snd (load_step ev cfg p w))) = Some e \<longrightarrow>
       Log DEBUG ''Failed to stop container (may not exist): %v'' [E e]
         \<in> set (trace (snd (stop_step ev cfg p w)))) \<and>
    (command_error (rm_command cfg) (30 * Second)
        (rm_result ev cfg (snd (load_step ev cfg p w))) = Some e \<longrightarrow>
       Log DEBUG ''Failed to remove container (may not exist): %v'' [E e]
         \<in> set (trace (snd (stop_step ev cfg p w))))"
proof -
  note st = processTarball_steps [OF assms, of ev cfg]
  have a: "fst (pre_step ev cfg p w) = Some e \<longrightarrow>
       processTarball ev cfg p w =
         (Some (Errorf ''pre-load commands failed: %w'' [E e]), snd (pre_step ev cfg p w))"
    by (simp add: st)
  have b: "fst (pre_step ev cfg p w) = None \<and> fst (load_step ev cfg p w) = Some e \<longrightarrow>
       processTarball ev cfg p w =
         (Some (Errorf ''failed to load Docker image: %w'' [E e]), snd (load_step ev cfg p w))"
    by (simp add: st)
  have c: "fst (pre_step ev cfg p w) = None \<and> fst (load_step ev cfg p w) = None \<and>
     fst (start_step ev cfg p w) = Some e \<longrightarrow>
       processTarball ev cfg p w =
         (Some (Errorf ''failed to start container: %w'' [E e]), snd (start_step ev cfg p w))"
    by (simp add: st)
  have d: "fst (pre_step ev cfg p w) = None \<and> fst (load_step ev cfg p w) = None \<and>
     fst (start_step ev cfg p w) = None \<longrightarrow>
       fst (processTarball ev cfg p w) = None \<and>
       (fst (post_step ev cfg p w) = Some e \<longrightarrow>
          Log WARN ''Post-load commands failed: %v'' [E e]
            \<in> set (trace (snd (processTarball ev cfg p w)))) \<and>
       (fst (cleanup_step ev cfg p w) = Some e \<longrightarrow>
          Log WARN ''Failed to cleanup tarball: %v'' [E e]
            \<in> set (trace (snd (processTarball ev cfg p w)))) \<and>
       spawns (snd (processTarball ev cfg p w)) = spawns (snd (post_step ev cfg p w))"
    using cycle_success [OF assms, of ev cfg e] by blast
  have e': "\<exists>rs. spawns (snd (post_step ev cfg p w)) =
          spawns (snd (start_step ev cfg p w))
            @ map (\<lambda>(c, r). (c, 5 * Minute, r)) (zip (nonblank (PostLoadCommands cfg)) rs)"
    unfolding post_step_def by (rule executePostLoadCommands_spawns)
  note h = stopAndRemoveContainer_facts [of ev cfg "snd (load_step ev cfg p w)" e,
      folded stop_step_def]
  show ?thesis
    using a b c d e' h by blast
qed

lemma world_files_id [simp]: "w\<lparr>files := files w\<rparr> = w"
  by simp

lemma demo_sh_eq: "demo_sh bad w c t = (demo_result bad c, files w)"
  by (simp add: demo_sh_def)

lemma ExecuteCommand_demo:
  "sh ev = demo_sh bad \<Longrightarrow>
   ExecuteCommand ev c t w =
     (if deadline_exceeded (demo_result bad c) then '''' else combined_output (demo_result bad c),
      command_error c t (demo_result bad c),
      emit (Spawn c t (demo_result bad c)) w)"
  by (simp add: ExecuteCommand_eq demo_sh_eq)

lemma trim_pre: "TrimSpace ''pre'' = ''pre''" by code_simp
lemma trim_post: "TrimSpace ''post'' = ''post''" by code_simp

lemma web_run_eq: "buildDockerRunCommand web_cfg = web_run"
  by (simp add: buildDockerRunCommand_eq web_cfg_def web_run_def)

lemma spawns_cycle_start [simp]: "spawns (cycle_start p w) = spawns w"
  by (simp add: cycle_start_def Let_def split: sum.splits)

lemma files_cycle_start [simp]: "files (cycle_start p w) = files w"
  by (simp add: cycle_start_def Let_def split: sum.splits)

lemma hooks_demo:
  assumes "sh ev = demo_sh bad" "TrimSpace c = c" "c \<noteq> ''''"
  shows "fst (ExecuteCommands ev [c] t w) = command_error c t (demo_result bad c)"
    and "spawns (snd (ExecuteCommands ev [c] t w)) = spawns w @ [(c, t, demo_result bad c)]"
    and "files (snd (ExecuteCommands ev [c] t w)) = files w"
  using assms(2,3)
  by (auto simp: ExecuteCommand_demo [OF assms(1)] spawns_emit split: option.splits)

lemma pre_demo:
  assumes "sh ev = demo_sh bad"
  shows "fst (pre_step ev web_cfg p w) = command_error ''pre'' (5 * Minute) (demo_result bad ''pre'')"
    and "spawns (snd (pre_step ev web_cfg p w)) = spawns w @ [(''pre'', 5 * Minute, demo_result bad ''pre'')]"
    and "files (snd (pre_step ev web_cfg p w)) = files w"
  using hooks_demo [OF assms trim_pre, of "5 * Minute"]
  by (simp_all add: pre_step_def executePreLoadCommands_def web_cfg_def)

lemma load_demo:
  assumes "sh ev = demo_sh bad"
  shows "fst (load_step ev cfg p w) =
           command_error (''docker load -i '' @ p) (10 * Minute)
             (demo_result bad (''docker load -i '' @ p))"
    and "spawns (snd (load_step ev cfg p w)) = spawns (snd (pre_step ev cfg p w))
           @ [(''docker load -i '' @ p, 10 * Minute, demo_result bad (''docker load -i '' @ p))]"
    and "files (snd (load_step ev cfg p w)) = files (snd (pre_step ev cfg p w))"
  by (auto simp: load_step_def loadDockerImage_def ExecuteCommand_demo [OF assms] spawns_emit
      split: option.splits)

lemma stop_demo:
  assumes "sh ev = demo_sh bad"
  shows "spawns (snd (stop_step ev cfg p w)) = spawns (snd (load_step ev cfg p w))
           @ [(stop_command cfg, 30 * Second, demo_result bad (stop_command cfg)),
              (rm_command cfg, 30 * Second, demo_result bad (rm_command cfg))]"
    and "files (snd (stop_step ev cfg p w)) = files (snd (load_step ev cfg p w))"
  by (auto simp: stop_step_def stopAndRemoveContainer_def stop_command_def rm_command_def
      ExecuteCommand_demo [OF assms] spawns_emit Let_def split: option.splits)

lemma start_demo:
  assumes "sh ev = demo_sh bad"
  shows "fst (start_step ev cfg p w) =
           command_error (buildDockerRunCommand cfg) (2 * Minute)
             (demo_result bad (buildDockerRunCommand cfg))"
    and "spawns (snd (start_step ev cfg p w)) = spawns (snd (stop_step ev cfg p w))
           @ [(buildDockerRunCommand cfg, 2 * Minute, demo_result bad (buildDockerRunCommand cfg))]"
    and "files (snd (start_step ev cfg p w)) = files (snd (stop_step ev cfg p w))"
  by (auto simp: start_step_def startContainer_def ExecuteCommand_demo [OF assms] spawns_emit
      Let_def split: option.splits)

lemma post_demo:
  assumes "sh ev = demo_sh bad"
  shows "fst (post_step ev web_cfg p w) = command_error ''post'' (5 * Minute) (demo_result bad ''post'')"
    and "spawns (snd (post_step ev web_cfg p w)) = spawns (snd (start_step ev web_cfg p w))
           @ [(''post'', 5 * Minute, demo_result bad ''post'')]"
    and "files (snd (post_step ev web_cfg p w)) = files (snd (start_step ev web_cfg p w))"
  using hooks_demo [OF assms trim_post, of "5 * Minute"]
  by (simp_all add: post_step_def executePostLoadCommands_def web_cfg_def)

lemma cleanup_demo:
  assumes "sh ev = demo_sh bad"
  shows "fst (cleanup_step ev web_cfg p w) =
           (if files w p = None then Some (Foreign ''remove: no such file or directory'')
            else map_option Foreign (remove_err ev
              (logf INFO ''Cleaning up tarball: %s'' [S p]
                (case post_step ev web_cfg p w of
                   (Some e, w') \<Rightarrow> logf WARN ''Post-load commands failed: %v'' [E e] w'
                 | (None, w') \<Rightarrow> w')) p))"
proof -
  have f: "files (case post_step ev web_cfg p w of
                   (Some e, w') \<Rightarrow> logf WARN ''Post-load commands failed: %v'' [E e] w'
                 | (None, w') \<Rightarrow> w') = files w"
    using post_demo(3) [OF assms, of p w] start_demo(3) [OF assms, of web_cfg p w]
      stop_demo(2) [OF assms, of web_cfg p w] load_demo(3) [OF assms, of web_cfg p w]
      pre_demo(3) [OF assms, of p w]
    by (cases "post_step ev web_cfg p w") (auto split: option.splits)
  show ?thesis
    unfolding cleanup_step_def Watcher_cleanupTarball_def os_Remove_def Let_def
    by (simp add: f)
qed


lemma sh_demo_env: "sh (demo_env bad) = demo_sh bad"
  by (simp add: demo_env_def)

lemma sh_env_stale: "sh env_stale = demo_sh [''docker stop web'', ''docker rm web'', ''post'']"
  by (simp add: env_stale_def demo_env_def)

lemma archive_exists: "FileExists archive_world ''/up/web.tar''"
  by (simp add: FileExists_def archive_world_def)

lemmas demo_outcome = command_error_def demo_result_def demo_failure_def web_run_def

theorem processTarball_fatal_and_best_effort_witness:
  "FileExists archive_world ''/up/web.tar'' \<and>
   fst (pre_step (demo_env [''pre'']) web_cfg ''/up/web.tar'' archive_world) = Some demo_failure \<and>
   fst (processTarball (demo_env [''pre'']) web_cfg ''/up/web.tar'' archive_world)
     = Some (Errorf ''pre-load commands failed: %w'' [E demo_failure]) \<and>
   map fst (spawns (snd (processTarball (demo_env [''pre'']) web_cfg ''/up/web.tar'' archive_world)))
     = [''pre''] \<and>
   fst (load_step (demo_env [''docker load -i /up/web.tar'']) web_cfg ''/up/web.tar'' archive_world)
     = Some demo_failure \<and>
   fst (processTarball (demo_env [''docker load -i /up/web.tar'']) web_cfg ''/up/web.tar''
          archive_world)
     = Some (Errorf ''failed to load Docker image: %w'' [E demo_failure]) \<and>
   map fst (spawns (snd (processTarball (demo_env [''docker load -i /up/web.tar'']) web_cfg
                           ''/up/web.tar'' archive_world)))
     = [''pre'', ''docker load -i /up/web.tar''] \<and>
   fst (start_step (demo_env [web_run]) web_cfg ''/up/web.tar'' archive_world) = Some demo_failure \<and>
   fst (processTarball (demo_env [web_run]) web_cfg ''/up/web.tar'' archive_world)
     = Some (Errorf ''failed to start container: %w'' [E demo_failure]) \<and>
   map fst (spawns (snd (processTarball (demo_env [web_run]) web_cfg ''/up/web.tar'' archive_world)))
     = [''pre'', ''docker load -i /up/web.tar'', ''docker stop web'', ''docker rm web'', web_run] \<and>
   fst (post_step env_stale web_cfg ''/up/web.tar'' archive_world) = Some demo_failure \<and>
   fst (cleanup_step env_stale web_cfg ''/up/web.tar'' archive_world)
     = Some (Foreign ''permission denied'') \<and>
   fst (processTarball env_stale web_cfg ''/up/web.tar'' archive_world) = None \<and>
   Log WARN ''Post-load commands failed: %v'' [E demo_failure]
     \<in> set (trace (snd (processTarball env_stale web_cfg ''/up/web.tar'' archive_world))) \<and>
   Log WARN ''Failed to cleanup tarball: %v'' [E (Foreign ''permission denied'')]
     \<in> set (trace (snd (processTarball env_stale web_cfg ''/up/web.tar'' archive_world))) \<and>
   Log DEBUG ''Failed to stop container (may not exist): %v'' [E demo_failure]
     \<in> set (trace (snd (stop_step env_stale web_cfg ''/up/web.tar'' archive_world))) \<and>
   Log DEBUG ''Failed to remove container (may not exist): %v'' [E demo_failure]
     \<in> set (trace (snd (stop_step env_stale web_cfg ''/up/web.tar'' archive_world))) \<and>
   map fst (spawns (snd (processTarball env_stale web_cfg ''/up/web.tar'' archive_world)))
     = [''pre'', ''docker load -i /up/web.tar'', ''docker stop web'', ''docker rm web'', web_run,
        ''post'']"
proof -
  note ex = archive_exists
  have sp0: "spawns archive_world = []"
    by (simp add: spawns_def archive_world_def)
  have names: "stop_command web_cfg = ''docker stop web''" "rm_command web_cfg = ''docker rm web''"
    by (simp_all add: stop_command_def rm_command_def web_cfg_def)
  \<comment> \<open>the pre-load hook fails\<close>
  note s1 = sh_demo_env [of "[''pre'']"]
  have a1: "fst (pre_step (demo_env [''pre'']) web_cfg ''/up/web.tar'' archive_world)
              = Some demo_failure"
    by (simp add: pre_demo(1) [OF s1] demo_outcome NonZeroExit_def)
  have a2: "map fst (spawns (snd (pre_step (demo_env [''pre'']) web_cfg ''/up/web.tar''
                                    archive_world))) = [''pre'']"
    by (simp add: pre_demo(2) [OF s1] sp0)
  from processTarball_fatal_and_best_effort [OF ex, of "demo_env [''pre'']" web_cfg demo_failure]
    a1 a2
  have A: "fst (processTarball (demo_env [''pre'']) web_cfg ''/up/web.tar'' archive_world)
     = Some (Errorf ''pre-load commands failed: %w'' [E demo_failure]) \<and>
   map fst (spawns (snd (processTarball (demo_env [''pre'']) web_cfg ''/up/web.tar'' archive_world)))
     = [''pre'']"
    by simp
  \<comment> \<open>the image load fails\<close>
  note s2 = sh_demo_env [of "[''docker load -i /up/web.tar'']"]
  have b0: "fst (pre_step (demo_env [''docker load -i /up/web.tar'']) web_cfg ''/up/web.tar''
                  archive_world) = None"
    by (simp add: pre_demo(1) [OF s2] demo_outcome)
  have b1: "fst (load_step (demo_env [''docker load -i /up/web.tar'']) web_cfg ''/up/web.tar''
                  archive_world) = Some demo_failure"
    by (simp add: load_demo(1) [OF s2] demo_outcome NonZeroExit_def)
  have b2: "map fst (spawns (snd (load_step (demo_env [''docker load -i /up/web.tar'']) web_cfg
              ''/up/web.tar'' archive_world))) = [''pre'', ''docker load -i /up/web.tar'']"
    by (simp add: load_demo(2) [OF s2] pre_demo(2) [OF s2] sp0)
  from processTarball_fatal_and_best_effort
         [OF ex, of "demo_env [''docker load -i /up/web.tar'']" web_cfg demo_failure] b0 b1 b2
  have B: "fst (processTarball (demo_env [''docker load -i /up/web.tar'']) web_cfg ''/up/web.tar''
          archive_world)
     = Some (Errorf ''failed to load Docker image: %w'' [E demo_failure]) \<and>
   map fst (spawns (snd (processTarball (demo_env [''docker load -i /up/web.tar'']) web_cfg
                           ''/up/web.tar'' archive_world)))
     = [''pre'', ''docker load -i /up/web.tar'']"
    by simp
  \<comment> \<open>the start fails\<close>
  note s3 = sh_demo_env [of "[web_run]"]
  have c0: "fst (pre_step (demo_env [web_run]) web_cfg ''/up/web.tar'' archive_world) = None"
    "fst (load_step (demo_env [web_run]) web_cfg ''/up/web.tar'' archive_world) = None"
    unfolding pre_demo(1) [OF s3] load_demo(1) [OF s3] by (simp_all add: demo_outcome)
  have c1: "fst (start_step (demo_env [web_run]) web_cfg ''/up/web.tar'' archive_world)
              = Some demo_failure"
    unfolding start_demo(1) [OF s3] web_run_eq
    by (simp add: command_error_def demo_result_def demo_failure_def NonZeroExit_def)
       (simp add: web_run_def)
  have c2: "map fst (spawns (snd (start_step (demo_env [web_run]) web_cfg ''/up/web.tar''
              archive_world)))
     = [''pre'', ''docker load -i /up/web.tar'', ''docker stop web'', ''docker rm web'', web_run]"
    by (simp add: start_demo(2) [OF s3] stop_demo(1) [OF s3] load_demo(2) [OF s3]
        pre_demo(2) [OF s3] sp0 names web_run_eq)
  from processTarball_fatal_and_best_effort [OF ex, of "demo_env [web_run]" web_cfg demo_failure]
    c0 c1 c2
  have C: "fst (processTarball (demo_env [web_run]) web_cfg ''/up/web.tar'' archive_world)
     = Some (Errorf ''failed to start container: %w'' [E demo_failure]) \<and>
   map fst (spawns (snd (processTarball (demo_env [web_run]) web_cfg ''/up/web.tar'' archive_world)))
     = [''pre'', ''docker load -i /up/web.tar'', ''docker stop web'', ''docker rm web'', web_run]"
    by simp
  \<comment> \<open>the stop, the removal, the post-load hook and the deletion fail\<close>
  note s4 = sh_env_stale
  have d0: "fst (pre_step env_stale web_cfg ''/up/web.tar'' archive_world) = None"
    "fst (load_step env_stale web_cfg ''/up/web.tar'' archive_world) = None"
    "fst (start_step env_stale web_cfg ''/up/web.tar'' archive_world) = None"
    by (simp_all add: pre_demo(1) [OF s4] load_demo(1) [OF s4] start_demo(1) [OF s4]
        web_run_eq demo_outcome)
  have d1: "fst (post_step env_stale web_cfg ''/up/web.tar'' archive_world) = Some demo_failure"
    by (simp add: post_demo(1) [OF s4] demo_outcome NonZeroExit_def)
  have d2: "fst (cleanup_step env_stale web_cfg ''/up/web.tar'' archive_world)
              = Some (Foreign ''permission denied'')"
    by (simp add: cleanup_demo [OF s4]) (simp add: archive_world_def env_stale_def)
  have d3: "command_error (stop_command web_cfg) (30 * Second)
              (stop_result env_stale web_cfg (snd (load_step env_stale web_cfg ''/up/web.tar''
                 archive_world))) = Some demo_failure"
    by (simp add: stop_result_def s4 demo_sh_eq names demo_outcome NonZeroExit_def)
  have d4: "command_error (rm_command web_cfg) (30 * Second)
              (rm_result env_stale web_cfg (snd (load_step env_stale web_cfg ''/up/web.tar''
                 archive_world))) = Some demo_failure"
    by (simp add: rm_result_def Let_def ExecuteCommand_demo [OF s4] s4 demo_sh_eq names
        demo_outcome NonZeroExit_def)
  have d5: "map fst (spawns (snd (post_step env_stale web_cfg ''/up/web.tar'' archive_world)))
     = [''pre'', ''docker load -i /up/web.tar'', ''docker stop web'', ''docker rm web'', web_run,
        ''post'']"
    by (simp add: post_demo(2) [OF s4] start_demo(2) [OF s4] stop_demo(1) [OF s4]
        load_demo(2) [OF s4] pre_demo(2) [OF s4] sp0 names web_run_eq)
  from processTarball_fatal_and_best_effort [OF ex, of env_stale web_cfg demo_failure]
    processTarball_fatal_and_best_effort [OF ex, of env_stale web_cfg "Foreign ''permission denied''"]
    d0 d1 d2 d3 d4 d5
  have D: "fst (processTarball env_stale web_cfg ''/up/web.tar'' archive_world) = None \<and>
   Log WARN ''Post-load commands failed: %v'' [E demo_failure]
     \<in> set (trace (snd (processTarball env_stale web_cfg ''/up/web.tar'' archive_world))) \<and>
   Log WARN ''Failed to cleanup tarball: %v'' [E (Foreign ''permission denied'')]
     \<in> set (trace (snd (processTarball env_stale web_cfg ''/up/web.tar'' archive_world))) \<and>
   Log DEBUG ''Failed to stop container (may not exist): %v'' [E demo_failure]
     \<in> set (trace (snd (stop_step env_stale web_cfg ''/up/web.tar'' archive_world))) \<and>
   Log DEBUG ''Failed to remove container (may not exist): %v'' [E demo_failure]
     \<in> set (trace (snd (stop_step env_stale web_cfg ''/up/web.tar'' archive_world))) \<and>
   map fst (spawns (snd (processTarball env_stale web_cfg ''/up/web.tar'' archive_world)))
     = [''pre'', ''docker load -i /up/web.tar'', ''docker stop web'', ''docker rm web'', web_run,
        ''post'']"
    by simp
  from ex a1 A b1 B c1 C d1 d2 D show ?thesis by blast
qed

lemma spawns_archive_world: "spawns archive_world = []"
  by (simp add: spawns_def archive_world_def)

lemma processTarball_missing:
  "\<not> FileExists w p \<Longrightarrow> fst (processTarball ev cfg p w) \<noteq> None"
  by (simp add: processTarball_def Let_def)

lemma cycle_success_steps:
  assumes "fst (processTarball ev cfg p w) = None"
  shows "FileExists w p" "fst (pre_step ev cfg p w) = None" "fst (load_step ev cfg p w) = None"
    "fst (start_step ev cfg p w) = None"
proof -
  show ex: "FileExists w p"
    using assms processTarball_missing by blast
  note st = processTarball_steps [OF ex, of ev cfg]
  show "fst (pre_step ev cfg p w) = None"
    using assms unfolding st by (cases "fst (pre_step ev cfg p w)") simp_all
  then show "fst (load_step ev cfg p w) = None"
    using assms unfolding st by (cases "fst (load_step ev cfg p w)") simp_all
  then show "fst (start_step ev cfg p w) = None"
    using assms \<open>fst (pre_step ev cfg p w) = None\<close> unfolding st
    by (cases "fst (start_step ev cfg p w)") simp_all
qed

lemma startContainer_spawns:
  "spawns (snd (startContainer ev cfg w)) =
     spawns w @ [(buildDockerRunCommand cfg, 2 * Minute,
                  fst (sh ev (logf INFO ''Starting new container: %s'' [S (ContainerName cfg)] w)
                         (buildDockerRunCommand cfg) (2 * Minute)))]"
  "fst (startContainer ev cfg w) =
     command_error (buildDockerRunCommand cfg) (2 * Minute)
       (fst (sh ev (logf INFO ''Starting new container: %s'' [S (ContainerName cfg)] w)
               (buildDockerRunCommand cfg) (2 * Minute)))"
  by (simp_all add: startContainer_eq Let_def spawns_emit)

text \<open>
  C3. The command that starts the container is \<open>docker run -d\<close> followed by the
  configured name, the restart policy (when one is configured), the port mappings, the
  environment bindings and the volume mappings, each list in configuration order, and
  last the image reference, which is the container name. \<open>startContainer\<close> spawns this
  one command and nothing else, and fails exactly when it fails. In a cycle that
  returns no error, the program stopped and removed the container of that name, then
  ran this command, which succeeded, and after it only post-load hooks.
\<close>

theorem startContainer_runs_configured_command:
  "buildDockerRunCommand cfg =
     ''docker run -d --name '' @ ContainerName cfg
       @ (if RestartPolicy cfg = '''' then '''' else '' --restart '' @ RestartPolicy cfg)
       @ concat (map (\<lambda>port. '' -p '' @ port) (ContainerPort cfg))
       @ concat (map (\<lambda>e. '' -e '' @ e) (ContainerEnv cfg))
       @ concat (map (\<lambda>volume. '' -v '' @ volume) (ContainerVolumes cfg))
       @ '' '' @ ContainerName cfg \<and>
   (\<exists>r. spawns (snd (startContainer ev cfg w)) =
          spawns w @ [(buildDockerRunCommand cfg, 2 * Minute, r)] \<and>
        fst (startContainer ev cfg w) = command_error (buildDockerRunCommand cfg) (2 * Minute) r) \<and>
   (fst (processTarball ev cfg p w) = None \<longrightarrow>
      (\<exists>r rs. succeeded r \<and>
         spawns (snd (processTarball ev cfg p w)) =
           spawns (snd (load_step ev cfg p w))
             @ [(stop_command cfg, 30 * Second, stop_result ev cfg (snd (load_step ev cfg p w))),
                (rm_command cfg, 30 * Second, rm_result ev cfg (snd (load_step ev cfg p w))),
                (buildDockerRunCommand cfg, 2 * Minute, r)]
             @ map (\<lambda>(c, r). (c, 5 * Minute, r)) (zip (nonblank (PostLoadCommands cfg)) rs)))"
proof (intro conjI impI)
  show "\<exists>r. spawns (snd (startContainer ev cfg w)) =
          spawns w @ [(buildDockerRunCommand cfg, 2 * Minute, r)] \<and>
        fst (startContainer ev cfg w) = command_error (buildDockerRunCommand cfg) (2 * Minute) r"
    using startContainer_spawns [of ev cfg w] by blast
next
  assume ok: "fst (processTarball ev cfg p w) = None"
  note steps = cycle_success_steps [OF ok]
  let ?w = "snd (stop_step ev cfg p w)"
  let ?r = "fst (sh ev (logf INFO ''Starting new container: %s'' [S (ContainerName cfg)] ?w)
                   (buildDockerRunCommand cfg) (2 * Minute))"
  have "command_error (buildDockerRunCommand cfg) (2 * Minute) ?r = None"
    using steps(4) startContainer_spawns(2) [of ev cfg ?w] by (simp add: start_step_def)
  then have r: "succeeded ?r"
    by (simp add: command_error_succeeded)
  have s1: "spawns (snd (start_step ev cfg p w)) =
              spawns ?w @ [(buildDockerRunCommand cfg, 2 * Minute, ?r)]"
    unfolding start_step_def by (rule startContainer_spawns(1))
  have s2: "spawns ?w = spawns (snd (load_step ev cfg p w))
             @ [(stop_command cfg, 30 * Second, stop_result ev cfg (snd (load_step ev cfg p w))),
                (rm_command cfg, 30 * Second, rm_result ev cfg (snd (load_step ev cfg p w)))]"
    using stopAndRemoveContainer_facts [of ev cfg "snd (load_step ev cfg p w)"]
    by (simp add: stop_step_def)
  obtain rs where s3: "spawns (snd (post_step ev cfg p w)) =
          spawns (snd (start_step ev cfg p w))
            @ map (\<lambda>(c, r). (c, 5 * Minute, r)) (zip (nonblank (PostLoadCommands cfg)) rs)"
    using executePostLoadCommands_spawns [of ev cfg "snd (start_step ev cfg p w)"]
    unfolding post_step_def by blast
  have s4: "spawns (snd (processTarball ev cfg p w)) = spawns (snd (post_step ev cfg p w))"
    using cycle_success [OF steps] by blast
  show "\<exists>r rs. succeeded r \<and>
         spawns (snd (processTarball ev cfg p w)) =
           spawns (snd (load_step ev cfg p w))
             @ [(stop_command cfg, 30 * Second, stop_result ev cfg (snd (load_step ev cfg p w))),
                (rm_command cfg, 30 * Second, rm_result ev cfg (snd (load_step ev cfg p w))),
                (buildDockerRunCommand cfg, 2 * Minute, r)]
             @ map (\<lambda>(c, r). (c, 5 * Minute, r)) (zip (nonblank (PostLoadCommands cfg)) rs)"
    by (rule exI [of _ ?r], rule exI [of _ rs]) (simp add: r s1 s2 s3 s4)
qed (rule buildDockerRunCommand_eq)

theorem startContainer_runs_configured_command_witness:
  "buildDockerRunCommand web_cfg
     = ''docker run -d --name web --restart unless-stopped -p 8080:80 web'' \<and>
   fst (processTarball (demo_env []) web_cfg ''/up/web.tar'' archive_world) = None \<and>
   map fst (spawns (snd (processTarball (demo_env []) web_cfg ''/up/web.tar'' archive_world)))
     = [''pre'', ''docker load -i /up/web.tar'', ''docker stop web'', ''docker rm web'',
        ''docker run -d --name web --restart unless-stopped -p 8080:80 web'', ''post'']"
proof -
  note s = sh_demo_env [of "[]"]
  have ok: "fst (pre_step (demo_env []) web_cfg ''/up/web.tar'' archive_world) = None"
    "fst (load_step (demo_env []) web_cfg ''/up/web.tar'' archive_world) = None"
    "fst (start_step (demo_env []) web_cfg ''/up/web.tar'' archive_world) = None"
    unfolding pre_demo(1) [OF s] load_demo(1) [OF s] start_demo(1) [OF s]
    by (simp_all add: command_error_def demo_result_def web_run_eq web_run_def)
  have n: "fst (processTarball (demo_env []) web_cfg ''/up/web.tar'' archive_world) = None"
    using cycle_success [OF archive_exists ok] by blast
  have l: "map fst (spawns (snd (load_step (demo_env []) web_cfg ''/up/web.tar'' archive_world)))
             = [''pre'', ''docker load -i /up/web.tar'']"
    by (simp add: load_demo(2) [OF s] pre_demo(2) [OF s] spawns_archive_world)
  have nb: "nonblank (PostLoadCommands web_cfg) = [''post'']"
    by (simp add: nonblank_def web_cfg_def trim_post)
  have len: "length (spawns (snd (processTarball (demo_env []) web_cfg ''/up/web.tar''
               archive_world))) = 6"
    using cycle_success [OF archive_exists ok]
    by (simp add: post_demo(2) [OF s] start_demo(2) [OF s] stop_demo(1) [OF s]
        load_demo(2) [OF s] pre_demo(2) [OF s] spawns_archive_world)
  from startContainer_runs_configured_command
         [of web_cfg "demo_env []" archive_world "''/up/web.tar''"] n
  obtain r rs where
    b: "buildDockerRunCommand web_cfg
         = ''docker run -d --name web --restart unless-stopped -p 8080:80 web''"
    and sp: "spawns (snd (processTarball (demo_env []) web_cfg ''/up/web.tar'' archive_world)) =
           spawns (snd (load_step (demo_env []) web_cfg ''/up/web.tar'' archive_world))
             @ [(stop_command web_cfg, 30 * Second,
                   stop_result (demo_env []) web_cfg
                     (snd (load_step (demo_env []) web_cfg ''/up/web.tar'' archive_world))),
                (rm_command web_cfg, 30 * Second,
                   rm_result (demo_env []) web_cfg
                     (snd (load_step (demo_env []) web_cfg ''/up/web.tar'' archive_world))),
                (buildDockerRunCommand web_cfg, 2 * Minute, r)]
             @ map (\<lambda>(c, r). (c, 5 * Minute, r)) (zip (nonblank (PostLoadCommands web_cfg)) rs)"
    by (auto simp: web_cfg_def)
  from len have "length rs \<noteq> 0"
    unfolding sp nb by (cases rs) (simp_all add: l [THEN arg_cong, of length, simplified])
  then obtain x xs where rs: "rs = x # xs" by (cases rs) auto
  have "map fst (spawns (snd (processTarball (demo_env []) web_cfg ''/up/web.tar'' archive_world)))
     = [''pre'', ''docker load -i /up/web.tar'', ''docker stop web'', ''docker rm web'',
        ''docker run -d --name web --restart unless-stopped -p 8080:80 web'', ''post'']"
    unfolding sp nb rs
    by (simp add: l b) (simp add: stop_command_def rm_command_def web_cfg_def)
  with b n show ?thesis by blast
qed

section \<open>The filter on file events\<close>

text \<open>
  C7. An event whose path does not end in \<open>.tar\<close> leaves the world as it was: nothing
  is run, removed or even logged. An event on an archive path that has neither the
  created bit nor the written bit is noted at debug level and nothing else happens. An
  event on an archive path with the created bit or the written bit starts the same
  processing, \<open>run_cycle\<close>, which depends on the path and not on the kind.
\<close>

theorem handleFileEvent_filters:
  "(\<not> HasSuffix (Name event) ''.tar'' \<longrightarrow> handleFileEvent ev cfg event w = w) \<and>
   (HasSuffix (Name event) ''.tar'' \<and>
    Op event AND fsnotify_Create \<noteq> fsnotify_Create \<and>
    Op event AND fsnotify_Write \<noteq> fsnotify_Write \<longrightarrow>
      handleFileEvent ev cfg event w
        = logf DEBUG ''File event: %s %s'' [Ops (Op event), S (Name event)] w \<and>
      actions (handleFileEvent ev cfg event w) = actions w) \<and>
   (HasSuffix (Name event) ''.tar'' \<and>
    (Op event AND fsnotify_Create = fsnotify_Create \<or>
     Op event AND fsnotify_Write = fsnotify_Write) \<longrightarrow>
      handleFileEvent ev cfg event w
        = run_cycle ev cfg (Name event)
            (logf DEBUG ''File event: %s %s'' [Ops (Op event), S (Name event)] w))"
  by (simp add: handleFileEvent_def run_cycle_def Let_def)

lemma demo_cycle_spawns:
  assumes s: "sh ev = demo_sh []" and ex: "FileExists w p"
  shows "map fst (spawns (snd (processTarball ev web_cfg p w))) =
           map fst (spawns w) @ [''pre'', ''docker load -i '' @ p, ''docker stop web'',
             ''docker rm web'', web_run, ''post'']"
proof -
  have ok: "fst (pre_step ev web_cfg p w) = None" "fst (load_step ev web_cfg p w) = None"
    "fst (start_step ev web_cfg p w) = None"
    unfolding pre_demo(1) [OF s] load_demo(1) [OF s] start_demo(1) [OF s]
    by (simp_all add: command_error_def demo_result_def web_run_eq web_run_def)
  have "spawns (snd (processTarball ev web_cfg p w)) = spawns (snd (post_step ev web_cfg p w))"
    using cycle_success [OF ex ok] by blast
  then show ?thesis
    by (simp add: post_demo(2) [OF s] start_demo(2) [OF s] stop_demo(1) [OF s]
        load_demo(2) [OF s] pre_demo(2) [OF s] web_run_eq stop_command_def rm_command_def)
       (simp add: web_cfg_def)
qed

lemma run_cycle_demo:
  assumes ex: "FileExists w ''/up/web.tar''"
  shows "map fst (spawns (run_cycle (demo_env []) web_cfg ''/up/web.tar'' w)) =
           map fst (spawns w) @ [''pre'', ''docker load -i /up/web.tar'', ''docker stop web'',
             ''docker rm web'', web_run, ''post'']"
proof -
  let ?w3 = "emit (Sleep (2 * Second))
               (logf INFO ''New tarball detected: %s'' [S ''/up/web.tar''] w)"
  have ex3: "FileExists ?w3 ''/up/web.tar''"
    using ex by (simp add: FileExists_def)
  have m: "meanwhile (demo_env []) x t = files x" for x t
    by (simp add: demo_env_def)
  have "spawns (run_cycle (demo_env []) web_cfg ''/up/web.tar'' w)
          = spawns (snd (processTarball (demo_env []) web_cfg ''/up/web.tar'' ?w3))"
    unfolding run_cycle_def Let_def m world_files_id
    by (cases "processTarball (demo_env []) web_cfg ''/up/web.tar'' ?w3")
       (simp split: option.splits)
  then show ?thesis
    using demo_cycle_spawns [OF sh_demo_env ex3] by (simp add: spawns_emit)
qed

theorem handleFileEvent_filters_witness:
  "\<not> HasSuffix ''/up/notes.txt'' ''.tar'' \<and>
   handleFileEvent (demo_env []) web_cfg \<lparr>Name = ''/up/notes.txt'', Op = 1\<rparr> archive_world
     = archive_world \<and>
   HasSuffix ''/up/web.tar'' ''.tar'' \<and>
   handleFileEvent (demo_env []) web_cfg \<lparr>Name = ''/up/web.tar'', Op = 4\<rparr> archive_world
     = logf DEBUG ''File event: %s %s'' [Ops 4, S ''/up/web.tar''] archive_world \<and>
   actions (handleFileEvent (demo_env []) web_cfg \<lparr>Name = ''/up/web.tar'', Op = 4\<rparr>
              archive_world) = [] \<and>
   map fst (spawns (handleFileEvent (demo_env []) web_cfg \<lparr>Name = ''/up/web.tar'', Op = 1\<rparr>
                      archive_world))
     = [''pre'', ''docker load -i /up/web.tar'', ''docker stop web'', ''docker rm web'', web_run,
        ''post''] \<and>
   map fst (spawns (handleFileEvent (demo_env []) web_cfg \<lparr>Name = ''/up/web.tar'', Op = 2\<rparr>
                      archive_world))
     = [''pre'', ''docker load -i /up/web.tar'', ''docker stop web'', ''docker rm web'', web_run,
        ''post'']"
proof -
  have n: "\<not> HasSuffix ''/up/notes.txt'' ''.tar''" and y: "HasSuffix ''/up/web.tar'' ''.tar''"
    by (simp_all add: HasSuffix_def)
  have a0: "actions archive_world = []"
    by (simp add: actions_def archive_world_def)
  have ex: "FileExists (logf DEBUG ''File event: %s %s'' [Ops k, S ''/up/web.tar''] archive_world)
              ''/up/web.tar''" for k
    using archive_exists by simp
  have k4: "(4 :: 32 word) AND fsnotify_Create \<noteq> fsnotify_Create"
    "(4 :: 32 word) AND fsnotify_Write \<noteq> fsnotify_Write"
    by (simp_all add: fsnotify_Create_def fsnotify_Write_def)
  have k1: "(1 :: 32 word) AND fsnotify_Create = fsnotify_Create"
    by (simp add: fsnotify_Create_def)
  have k2: "(2 :: 32 word) AND fsnotify_Write = fsnotify_Write"
    by (simp add: fsnotify_Write_def)
  show ?thesis
    using handleFileEvent_filters
            [of "\<lparr>Name = ''/up/notes.txt'', Op = 1\<rparr>" "demo_env []" web_cfg archive_world]
      handleFileEvent_filters
            [of "\<lparr>Name = ''/up/web.tar'', Op = 4\<rparr>" "demo_env []" web_cfg archive_world]
      handleFileEvent_filters
            [of "\<lparr>Name = ''/up/web.tar'', Op = 1\<rparr>" "demo_env []" web_cfg archive_world]
      handleFileEvent_filters
            [of "\<lparr>Name = ''/up/web.tar'', Op = 2\<rparr>" "demo_env []" web_cfg archive_world]
      n y a0 k4 k1 k2 run_cycle_demo [OF ex [of 1]] run_cycle_demo [OF ex [of 2]]
    by (simp add: spawns_archive_world)
qed

section \<open>The secure session\<close>

lemma createSSHClient_eq:
  "createSSHClient ev cfg w =
     (case key_auth ev cfg w of
        Inl e \<Rightarrow> (Some e, w)
      | Inr auth \<Rightarrow>
          (case files w (known_hosts_path ev) of
             None \<Rightarrow>
               dial ev (dial_op cfg auth InsecureIgnoreHostKey)
                 (logf WARN ''known_hosts file not found, using insecure connection'' [] w)
           | Some k \<Rightarrow>
               (case known_hosts_err ev (content k) of
                  Some m \<Rightarrow>
                    dial ev (dial_op cfg auth InsecureIgnoreHostKey)
                      (logf WARN ''Failed to load known_hosts, using insecure connection: %v''
                         [E (Foreign m)] w)
                | None \<Rightarrow> dial ev (dial_op cfg auth (KnownHosts (content k))) w)))"
proof (cases "key_auth ev cfg w")
  case (Inl e)
  then show ?thesis
    unfolding createSSHClient_def key_auth_def by simp
next
  case (Inr auth)
  have d: "(case ssh_do ev op x of
              (Some e, w2) \<Rightarrow> (Some (Errorf ''failed to connect to SSH server: %w'' [E e]), w2)
            | (None, w2) \<Rightarrow> (None, w2)) = dial ev op x" for op x
    by (simp add: ssh_do_def dial_def Let_def split: option.splits)
  show ?thesis
    using Inr unfolding createSSHClient_def key_auth_def
    by (simp add: Let_def d known_hosts_path_def dial_op_def remote_addr_def FileExists_def
        knownhosts_New_def split: option.splits)
qed

text \<open>
  C9. Once the key material is loaded, \<open>createSSHClient\<close> dials in all three cases, and
  its result is the dial's: the session is established exactly when the dial succeeds.
  When there is no known-hosts file, or the file does not load, it first hands a warning
  to the logger and then dials with \<open>ssh.InsecureIgnoreHostKey()\<close>, the callback that
  accepts any host key; when the file loads, it dials with the callback built from that
  file, and logs no warning.
\<close>

theorem createSSHClient_host_key_policy:
  assumes "key_auth ev cfg w = Inr auth"
  shows
   "(files w (known_hosts_path ev) = None \<longrightarrow>
       createSSHClient ev cfg w =
         dial ev (dial_op cfg auth InsecureIgnoreHostKey)
           (logf WARN ''known_hosts file not found, using insecure connection'' [] w)) \<and>
    (files w (known_hosts_path ev) = Some k \<and> known_hosts_err ev (content k) = Some m \<longrightarrow>
       createSSHClient ev cfg w =
         dial ev (dial_op cfg auth InsecureIgnoreHostKey)
           (logf WARN ''Failed to load known_hosts, using insecure connection: %v''
              [E (Foreign m)] w)) \<and>
    (files w (known_hosts_path ev) = Some k \<and> known_hosts_err ev (content k) = None \<longrightarrow>
       createSSHClient ev cfg w = dial ev (dial_op cfg auth (KnownHosts (content k))) w) \<and>
    (fst (dial ev op w') = None \<longleftrightarrow> ssh_err ev w' op = None) \<and>
    trace (snd (dial ev op w')) = trace w' @ [Ssh op (ssh_err ev w' op)]"
  using assms by (simp add: createSSHClient_eq dial_def)


lemma known_hosts_path_demo:
  "known_hosts_path (demo_env bad) = ''/home/deploy/.ssh/known_hosts''"
  "known_hosts_path env_garbled = ''/home/deploy/.ssh/known_hosts''"
  by (simp_all add: known_hosts_path_def demo_env_def env_garbled_def)

lemma fmt_d_22: "fmt_d 22 = ''22''"
  by code_simp

lemma remote_addr_up_cfg: "remote_addr up_cfg = ''deploy.example:22''"
  by (simp add: remote_addr_def up_cfg_def fmt_d_22)

lemma key_auth_demo:
  "key_auth (demo_env bad) up_cfg key_world = Inr [PublicKeys ''KEY'']"
  "key_auth (demo_env bad) up_cfg trusting_world = Inr [PublicKeys ''KEY'']"
  "key_auth env_garbled up_cfg trusting_world = Inr [PublicKeys ''KEY'']"
  by (simp_all add: key_auth_def up_cfg_def key_world_def trusting_world_def demo_env_def
      env_garbled_def)

theorem createSSHClient_host_key_policy_witness:
  "key_auth (demo_env []) up_cfg key_world = Inr [PublicKeys ''KEY''] \<and>
   files key_world (known_hosts_path (demo_env [])) = None \<and>
   fst (createSSHClient (demo_env []) up_cfg key_world) = None \<and>
   trace (snd (createSSHClient (demo_env []) up_cfg key_world)) =
     [Log WARN ''known_hosts file not found, using insecure connection'' [],
      Ssh (Dial ''tcp'' ''deploy.example:22''
             (ClientConfig ''deploy'' [PublicKeys ''KEY''] InsecureIgnoreHostKey (30 * Second)))
        None] \<and>
   known_hosts_err env_garbled ''deploy.example ssh-ed25519 AAAA'' = Some ''illegal base64 data'' \<and>
   fst (createSSHClient env_garbled up_cfg trusting_world) = None \<and>
   trace (snd (createSSHClient env_garbled up_cfg trusting_world)) =
     [Log WARN ''Failed to load known_hosts, using insecure connection: %v''
        [E (Foreign ''illegal base64 data'')],
      Ssh (Dial ''tcp'' ''deploy.example:22''
             (ClientConfig ''deploy'' [PublicKeys ''KEY''] InsecureIgnoreHostKey (30 * Second)))
        None] \<and>
   known_hosts_err (demo_env []) ''deploy.example ssh-ed25519 AAAA'' = None \<and>
   fst (createSSHClient (demo_env []) up_cfg trusting_world) = None \<and>
   trace (snd (createSSHClient (demo_env []) up_cfg trusting_world)) =
     [Ssh (Dial ''tcp'' ''deploy.example:22''
             (ClientConfig ''deploy'' [PublicKeys ''KEY'']
                (KnownHosts ''deploy.example ssh-ed25519 AAAA'') (30 * Second)))
        None]"
proof -
  have f1: "files key_world (known_hosts_path (demo_env [])) = None"
    by (simp add: known_hosts_path_demo key_world_def)
  have f2: "files trusting_world (known_hosts_path env_garbled)
              = Some (File 420 ''deploy.example ssh-ed25519 AAAA'')"
    "files trusting_world (known_hosts_path (demo_env []))
              = Some (File 420 ''deploy.example ssh-ed25519 AAAA'')"
    by (simp_all add: known_hosts_path_demo trusting_world_def)
  have g: "known_hosts_err env_garbled ''deploy.example ssh-ed25519 AAAA''
             = Some ''illegal base64 data''"
    "known_hosts_err (demo_env []) ''deploy.example ssh-ed25519 AAAA'' = None"
    by (simp_all add: env_garbled_def demo_env_def)
  have e: "ssh_err (demo_env []) x op = None" "ssh_err env_garbled x op = None" for x op
    by (simp_all add: env_garbled_def demo_env_def)
  have t: "trace key_world = []" "trace trusting_world = []"
    "RemoteUser up_cfg = ''deploy''"
    by (simp_all add: key_world_def trusting_world_def up_cfg_def)
  show ?thesis
    using createSSHClient_host_key_policy [OF key_auth_demo(1) [of "[]"],
        of "File 420 ''deploy.example ssh-ed25519 AAAA''" "''illegal base64 data''"]
      createSSHClient_host_key_policy [OF key_auth_demo(3),
        of "File 420 ''deploy.example ssh-ed25519 AAAA''" "''illegal base64 data''"]
      createSSHClient_host_key_policy [OF key_auth_demo(2) [of "[]"],
        of "File 420 ''deploy.example ssh-ed25519 AAAA''" "''illegal base64 data''"]
      f1 f2 g key_auth_demo(1) [of "[]"]
    by (simp add: dial_def dial_op_def e t remote_addr_up_cfg)
qed

section \<open>The push of one file\<close>

lemma ssh_do_snd: "snd (ssh_do ev op w) = emit (Ssh op (ssh_err ev w op)) w"
  by (simp add: ssh_do_def Let_def)

lemma ssh_do_None: "ssh_do ev op w = (None, w') \<Longrightarrow> w' = emit (Ssh op None) w"
  by (auto simp: ssh_do_def Let_def)

lemma ssh_do_Some:
  "ssh_do ev op w = (Some e, w') \<Longrightarrow> \<exists>m. w' = emit (Ssh op (Some m)) w \<and> e = Foreign m"
  by (auto simp: ssh_do_def Let_def)

lemma scp_session_success:
  assumes "fst (scp_session ev f name rp w) = None"
  shows "\<exists>c. snd (scp_session ev f name rp w) =
           emit (Ssh Wait None) (emit (Ssh CloseStdin c)
             (emit (Ssh (StdinWrite [CHR 0x00]) None)
               (emit (Ssh (StdinCopy (content f)) None)
                 (emit (Ssh (StdinWrite (scp_header f name)) None)
                   (emit (Ssh (Start (''scp -t '' @ rp)) None)
                     (emit (Ssh StdinPipe None) w))))))"
  using assms unfolding scp_session_def
  by (auto split: prod.splits option.splits dest!: ssh_do_None simp: ssh_do_snd)

lemma scpUpload_success:
  assumes "fst (scpUpload ev cfg localPath w) = None"
  shows "\<exists>f c d. files w localPath = Some f \<and> fstat_err ev w localPath = None \<and>
           ssh_ops (snd (scpUpload ev cfg localPath w)) =
             ssh_ops w @
               [(NewSession, None), (StdinPipe, None),
                (Start (''scp -t '' @ Join ev [RemoteUploadPath cfg, Base localPath]), None),
                (StdinWrite (scp_header f (Base localPath)), None),
                (StdinCopy (content f), None),
                (StdinWrite [CHR 0x00], None),
                (CloseStdin, c), (Wait, None), (SessionClose, d)]"
proof -
  from assms obtain f where f: "files w localPath = Some f"
    by (cases "files w localPath") (auto simp: scpUpload_def)
  from assms f have st: "fstat_err ev w localPath = None"
    by (cases "fstat_err ev w localPath") (auto simp: scpUpload_def)
  let ?rp = "Join ev [RemoteUploadPath cfg, Base localPath]"
  obtain r1 w1 where n: "ssh_do ev NewSession w = (r1, w1)" by fastforce
  from assms f st n have r1: "r1 = None"
    by (cases r1) (auto simp: scpUpload_def Let_def)
  from n r1 have w1: "w1 = emit (Ssh NewSession None) w"
    by (auto dest: ssh_do_None)
  have up: "scpUpload ev cfg localPath w =
              (fst (scp_session ev f (Base localPath) ?rp w1),
               snd (ssh_do ev SessionClose (snd (scp_session ev f (Base localPath) ?rp w1))))"
    using f st n r1 by (simp add: scpUpload_def Let_def split: prod.splits)
  from assms up have "fst (scp_session ev f (Base localPath) ?rp w1) = None" by simp
  from scp_session_success [OF this] obtain c where
    c: "snd (scp_session ev f (Base localPath) ?rp w1) =
           emit (Ssh Wait None) (emit (Ssh CloseStdin c)
             (emit (Ssh (StdinWrite [CHR 0x00]) None)
               (emit (Ssh (StdinCopy (content f)) None)
                 (emit (Ssh (StdinWrite (scp_header f (Base localPath))) None)
                   (emit (Ssh (Start (''scp -t '' @ ?rp)) None)
                     (emit (Ssh StdinPipe None) w1))))))"
    by blast
  show ?thesis
    apply (rule exI [of _ f], rule exI [of _ c])
    apply (rule exI [of _ "ssh_err ev (snd (scp_session ev f (Base localPath) ?rp w1)) SessionClose"])
    unfolding up snd_conv ssh_do_snd c
    by (simp add: f st w1 ssh_ops_emit)
qed

text \<open>
  C4, as amended. When \<open>scpUpload\<close> returns no error, the local file was there and could
  be examined, and the operations on the session were, in this order and each without
  error: a new session, its input pipe, the start of \<open>scp -t\<close> on the remote path, the
  write of the header, the copy of the file's contents, the write of one null byte; then
  the closing of the input, whatever it returned; then the wait, without error; then the
  closing of the session. So the bytes that reached the session's input are the header,
  the contents and the null byte. The header is \<open>C\<close>, the permission bits in octal with
  a leading zero, the length in decimal and the base name, separated by spaces and ended
  by a newline. Conversely, when any operation other than the two closings failed, the
  call returns an error.
\<close>

theorem scpUpload_protocol:
  "(fst (scpUpload ev cfg localPath w) = None \<longrightarrow>
      (\<exists>f c d. files w localPath = Some f \<and> fstat_err ev w localPath = None \<and>
         ssh_ops (snd (scpUpload ev cfg localPath w)) =
           ssh_ops w @
             [(NewSession, None), (StdinPipe, None),
              (Start (''scp -t '' @ Join ev [RemoteUploadPath cfg, Base localPath]), None),
              (StdinWrite (scp_header f (Base localPath)), None),
              (StdinCopy (content f), None),
              (StdinWrite [CHR 0x00], None),
              (CloseStdin, c), (Wait, None), (SessionClose, d)] \<and>
         stdin_stream (drop (length (ssh_ops w)) (ssh_ops (snd (scpUpload ev cfg localPath w))))
           = scp_header f (Base localPath) @ content f @ [CHR 0x00])) \<and>
   ((\<exists>op m. (op, Some m)
        \<in> set (drop (length (ssh_ops w)) (ssh_ops (snd (scpUpload ev cfg localPath w)))) \<and>
      op \<noteq> CloseStdin \<and> op \<noteq> SessionClose) \<longrightarrow>
      fst (scpUpload ev cfg localPath w) \<noteq> None) \<and>
   scp_header g name =
     ''C'' @ fmt_sharp_o (unat (Mode g AND 511)) @ '' '' @ fmt_d (int (length (content g)))
       @ '' '' @ name @ [CHR 0x0A]"
proof (intro conjI impI)
  assume "fst (scpUpload ev cfg localPath w) = None"
  from scpUpload_success [OF this] obtain f c d where
    *: "files w localPath = Some f" "fstat_err ev w localPath = None"
      "ssh_ops (snd (scpUpload ev cfg localPath w)) =
         ssh_ops w @
           [(NewSession, None), (StdinPipe, None),
            (Start (''scp -t '' @ Join ev [RemoteUploadPath cfg, Base localPath]), None),
            (StdinWrite (scp_header f (Base localPath)), None),
            (StdinCopy (content f), None),
            (StdinWrite [CHR 0x00], None),
            (CloseStdin, c), (Wait, None), (SessionClose, d)]"
    by blast
  have "stdin_stream (drop (length (ssh_ops w)) (ssh_ops (snd (scpUpload ev cfg localPath w))))
           = scp_header f (Base localPath) @ content f @ [CHR 0x00]"
    unfolding *(3) by (cases c; cases d; simp add: stdin_stream_def)
  with * show "\<exists>f c d. files w localPath = Some f \<and> fstat_err ev w localPath = None \<and>
         ssh_ops (snd (scpUpload ev cfg localPath w)) =
           ssh_ops w @
             [(NewSession, None), (StdinPipe, None),
              (Start (''scp -t '' @ Join ev [RemoteUploadPath cfg, Base localPath]), None),
              (StdinWrite (scp_header f (Base localPath)), None),
              (StdinCopy (content f), None),
              (StdinWrite [CHR 0x00], None),
              (CloseStdin, c), (Wait, None), (SessionClose, d)] \<and>
         stdin_stream (drop (length (ssh_ops w)) (ssh_ops (snd (scpUpload ev cfg localPath w))))
           = scp_header f (Base localPath) @ content f @ [CHR 0x00]"
    by blast
next
  assume a: "\<exists>op m. (op, Some m)
        \<in> set (drop (length (ssh_ops w)) (ssh_ops (snd (scpUpload ev cfg localPath w)))) \<and>
      op \<noteq> CloseStdin \<and> op \<noteq> SessionClose"
  show "fst (scpUpload ev cfg localPath w) \<noteq> None"
  proof
    assume "fst (scpUpload ev cfg localPath w) = None"
    from scpUpload_success [OF this] obtain f c d where
      "ssh_ops (snd (scpUpload ev cfg localPath w)) =
         ssh_ops w @
           [(NewSession, None), (StdinPipe, None),
            (Start (''scp -t '' @ Join ev [RemoteUploadPath cfg, Base localPath]), None),
            (StdinWrite (scp_header f (Base localPath)), None),
            (StdinCopy (content f), None),
            (StdinWrite [CHR 0x00], None),
            (CloseStdin, c), (Wait, None), (SessionClose, d)]"
      by blast
    with a show False by auto
  qed
qed (simp add: scp_header_def)


lemma ssh_do_const:
  "ssh_err ev = (\<lambda>w. g) \<Longrightarrow> ssh_do ev op w = (map_option Foreign (g op), emit (Ssh op (g op)) w)"
  by (simp add: ssh_do_def Let_def)

lemma header_web: "scp_header (File 420 ''data'') ''web.tar'' = ''C0644 4 web.tar\<newline>''"
  by code_simp

lemma Base_web: "Base ''/up/web.tar'' = ''web.tar''"
  by (simp add: Base_def)

lemma scpUpload_demo:
  assumes e: "ssh_err ev = (\<lambda>w. g)" and s: "fstat_err ev = (\<lambda>w p. None)" and j: "Join ev = demo_join"
    and g: "g NewSession = None" "g StdinPipe = None" "g (Start ''scp -t /up/web.tar'') = None"
      "g (StdinWrite ''C0644 4 web.tar\<newline>'') = None" "g (StdinCopy ''data'') = None"
      "g (StdinWrite [CHR 0x00]) = None"
  shows "fst (scpUpload ev up_cfg ''/up/web.tar'' archive_world) = map_option
            (\<lambda>m. Errorf ''SCP command failed: %w'' [E (Foreign m)]) (g Wait)"
    and "ssh_ops (snd (scpUpload ev up_cfg ''/up/web.tar'' archive_world)) =
          [(NewSession, None), (StdinPipe, None), (Start ''scp -t /up/web.tar'', None),
           (StdinWrite ''C0644 4 web.tar\<newline>'', None), (StdinCopy ''data'', None),
           (StdinWrite [CHR 0x00], None), (CloseStdin, g CloseStdin), (Wait, g Wait),
           (SessionClose, g SessionClose)]"
proof -
  have f: "files archive_world ''/up/web.tar'' = Some (File 420 ''data'')"
    by (simp add: archive_world_def)
  have r: "RemoteUploadPath up_cfg = ''/up''" by (simp add: up_cfg_def)
  have so: "ssh_ops archive_world = []" by (simp add: ssh_ops_def archive_world_def)
  show "fst (scpUpload ev up_cfg ''/up/web.tar'' archive_world) = map_option
            (\<lambda>m. Errorf ''SCP command failed: %w'' [E (Foreign m)]) (g Wait)"
    unfolding scpUpload_def scp_session_def Let_def f s j r Base_web header_web
    by (simp add: ssh_do_const [OF e] g header_web split: option.splits)
  show "ssh_ops (snd (scpUpload ev up_cfg ''/up/web.tar'' archive_world)) =
          [(NewSession, None), (StdinPipe, None), (Start ''scp -t /up/web.tar'', None),
           (StdinWrite ''C0644 4 web.tar\<newline>'', None), (StdinCopy ''data'', None),
           (StdinWrite [CHR 0x00], None), (CloseStdin, g CloseStdin), (Wait, g Wait),
           (SessionClose, g SessionClose)]"
    unfolding scpUpload_def scp_session_def Let_def f s j r Base_web header_web
    by (simp add: ssh_do_const [OF e] g header_web ssh_ops_emit so split: option.splits)
qed

theorem scpUpload_ignores_close_error:
  "fst (scpUpload env_half_closed up_cfg ''/up/web.tar'' archive_world) = None \<and>
   (CloseStdin, Some ''EOF'')
     \<in> set (ssh_ops (snd (scpUpload env_half_closed up_cfg ''/up/web.tar'' archive_world)))"
proof -
  have e: "ssh_err env_half_closed = (\<lambda>w op. if op = CloseStdin then Some ''EOF'' else None)"
    and s: "fstat_err env_half_closed = (\<lambda>w p. None)" and j: "Join env_half_closed = demo_join"
    by (simp_all add: env_half_closed_def demo_env_def)
  show ?thesis
    by (simp add: scpUpload_demo [OF e s j])
qed

theorem scpUpload_protocol_witness:
  "fst (scpUpload (demo_env []) up_cfg ''/up/web.tar'' archive_world) = None \<and>
   stdin_stream (drop (length (ssh_ops archive_world))
      (ssh_ops (snd (scpUpload (demo_env []) up_cfg ''/up/web.tar'' archive_world))))
     = ''C0644 4 web.tar\<newline>'' @ ''data'' @ [CHR 0x00] \<and>
   (Wait, Some ''Process exited with status 1'')
     \<in> set (drop (length (ssh_ops archive_world))
          (ssh_ops (snd (scpUpload env_remote_exit up_cfg ''/up/web.tar'' archive_world)))) \<and>
   fst (scpUpload env_remote_exit up_cfg ''/up/web.tar'' archive_world)
     = Some (Errorf ''SCP command failed: %w'' [E (Foreign ''Process exited with status 1'')]) \<and>
   scp_header (File 420 ''data'') ''web.tar'' = ''C0644 4 web.tar\<newline>''"
proof -
  have e1: "ssh_err (demo_env []) = (\<lambda>w op. None)"
    and s1: "fstat_err (demo_env []) = (\<lambda>w p. None)" and j1: "Join (demo_env []) = demo_join"
    by (simp_all add: demo_env_def)
  have e2: "ssh_err env_remote_exit
              = (\<lambda>w op. if op = Wait then Some ''Process exited with status 1'' else None)"
    and s2: "fstat_err env_remote_exit = (\<lambda>w p. None)" and j2: "Join env_remote_exit = demo_join"
    by (simp_all add: env_remote_exit_def demo_env_def)
  have so: "ssh_ops archive_world = []" by (simp add: ssh_ops_def archive_world_def)
  have f: "files archive_world ''/up/web.tar'' = Some (File 420 ''data'')"
    by (simp add: archive_world_def)
  have a: "fst (scpUpload (demo_env []) up_cfg ''/up/web.tar'' archive_world) = None"
    by (simp add: scpUpload_demo(1) [OF e1 s1 j1])
  have b: "(Wait, Some ''Process exited with status 1'')
     \<in> set (drop (length (ssh_ops archive_world))
          (ssh_ops (snd (scpUpload env_remote_exit up_cfg ''/up/web.tar'' archive_world))))"
    by (simp add: scpUpload_demo(2) [OF e2 s2 j2] so)
  have c: "fst (scpUpload env_remote_exit up_cfg ''/up/web.tar'' archive_world)
     = Some (Errorf ''SCP command failed: %w'' [E (Foreign ''Process exited with status 1'')])"
    by (simp add: scpUpload_demo(1) [OF e2 s2 j2])
  from scpUpload_protocol [of "demo_env []" up_cfg "''/up/web.tar''" archive_world
      "File 420 ''data''" "''web.tar''"] a f
  have d: "stdin_stream (drop (length (ssh_ops archive_world))
      (ssh_ops (snd (scpUpload (demo_env []) up_cfg ''/up/web.tar'' archive_world))))
     = ''C0644 4 web.tar\<newline>'' @ ''data'' @ [CHR 0x00]"
    by (auto simp: Base_web header_web)
  show ?thesis
    using a b c d header_web by simp
qed

section \<open>The transfer pipeline\<close>

lemma ExecuteCommand_frameD:
  "ExecuteCommand ev c t w = (out, e, w') \<Longrightarrow>
     ssh_ops w' = ssh_ops w \<and> removes w' = removes w \<and> files w' = snd (sh ev w c t)"
  using ExecuteCommand_ssh_ops [of ev c t w] ExecuteCommand_removes [of ev c t w]
    ExecuteCommand_world(2) [of ev c t w out e w']
  by simp

lemma EnsureDir_frame [simp]:
  "ssh_ops (snd (EnsureDir ev p w)) = ssh_ops w"
  "removes (snd (EnsureDir ev p w)) = removes w"
  "files (snd (EnsureDir ev p w)) = files w"
  "fst (EnsureDir ev p w) = map_option Foreign (mkdir_err ev w p)"
  by (simp_all add: EnsureDir_def Let_def ssh_ops_emit removes_emit)

lemma ssh_do_frame [simp]:
  "removes (snd (ssh_do ev op w)) = removes w"
  "files (snd (ssh_do ev op w)) = files w"
  "spawns (snd (ssh_do ev op w)) = spawns w"
  by (simp_all add: ssh_do_snd removes_emit spawns_emit)

lemma ssh_do_frameD:
  "ssh_do ev op w = (r, w') \<Longrightarrow> removes w' = removes w \<and> files w' = files w"
  using ssh_do_frame(1,2) [of ev op w] by simp

lemma executePreBuildCommands_frame [simp]:
  "ssh_ops (snd (executePreBuildCommands ev cfg w)) = ssh_ops w"
  "removes (snd (executePreBuildCommands ev cfg w)) = removes w"
  by (simp_all add: executePreBuildCommands_def)

lemma executePostBuildCommands_frame [simp]:
  "ssh_ops (snd (executePostBuildCommands ev cfg w)) = ssh_ops w"
  "removes (snd (executePostBuildCommands ev cfg w)) = removes w"
  by (simp_all add: executePostBuildCommands_def)

lemma buildDockerImage_frame [simp]:
  "ssh_ops (snd (buildDockerImage ev cfg w)) = ssh_ops w"
  "removes (snd (buildDockerImage ev cfg w)) = removes w"
proof -
  let ?w0 = "logf INFO ''Building Docker image: %s:%s'' [S (ImageName cfg), S (ImageTag cfg)] w"
  let ?c = "if BuildCommand cfg \<noteq> '''' then BuildCommand cfg
            else ''docker build -t '' @ ImageName cfg @ '':'' @ ImageTag cfg
                   @ '' '' @ DockerBuildPath cfg"
  obtain out e w1 where x: "ExecuteCommand ev ?c (15 * Minute) ?w0 = (out, e, w1)"
    by (metis prod_cases3)
  note f = ExecuteCommand_frameD [OF x]
  have eq: "buildDockerImage ev cfg w =
      (case e of Some x \<Rightarrow> (Some x, w1)
       | None \<Rightarrow> (None, logf DEBUG ''Docker build output: %s'' [S (TrimSpace out)] w1))"
    unfolding buildDockerImage_def Let_def x by (cases e) simp_all
  show "ssh_ops (snd (buildDockerImage ev cfg w)) = ssh_ops w"
    unfolding eq using f by (cases e) simp_all
  show "removes (snd (buildDockerImage ev cfg w)) = removes w"
    unfolding eq using f by (cases e) simp_all
qed

lemma export_world_frame [simp]:
  "ssh_ops (export_world ev cfg w) = ssh_ops w"
  "removes (export_world ev cfg w) = removes w"
  "files (export_world ev cfg w) = files w"
  by (simp_all add: export_world_def Let_def)

lemma createTarball_eq:
  "createTarball ev cfg w =
     (case (if TarballPath cfg \<noteq> ''''
            then mkdir_err ev (logf INFO ''Creating tarball for image: %s:%s''
                                [S (ImageName cfg), S (ImageTag cfg)] w) (TarballPath cfg)
            else None) of
        Some m \<Rightarrow>
          (Inl (Errorf ''failed to create tarball directory: %w'' [E (Foreign m)]),
           export_world ev cfg w)
      | None \<Rightarrow>
        (case ExecuteCommand ev (export_command cfg (tarball_path ev cfg w)) (10 * Minute)
                (export_world ev cfg w) of
           (out, Some e, w2) \<Rightarrow> (Inl e, w2)
         | (out, None, w2) \<Rightarrow>
             (let w3 = logf DEBUG ''Docker save output: %s'' [S (TrimSpace out)] w2
              in if \<not> FileExists w3 (tarball_path ev cfg w)
                 then (Inl (Errorf ''tarball was not created: %s'' [S (tarball_path ev cfg w)]), w3)
                 else
                   (Inr (tarball_path ev cfg w),
                    (case GetFileSize w3 (tarball_path ev cfg w) of
                       Inl e \<Rightarrow> logf WARN ''Failed to get tarball size: %v'' [E e] w3
                     | Inr sz \<Rightarrow>
                         logf INFO ''Tarball created: %s (%s)''
                           [S (tarball_path ev cfg w), B sz] w3)))))"
proof (cases "TarballPath cfg \<noteq> ''''")
  case False
  then show ?thesis
    unfolding createTarball_def export_world_def tarball_path_def export_command_def
    by (simp add: Let_def split: prod.splits option.splits sum.splits)
next
  case True
  let ?w0 = "logf INFO ''Creating tarball for image: %s:%s''
               [S (ImageName cfg), S (ImageTag cfg)] w"
  show ?thesis
  proof (cases "mkdir_err ev ?w0 (TarballPath cfg)")
    case None
    with True show ?thesis
      unfolding createTarball_def export_world_def tarball_path_def export_command_def
      by (simp add: Let_def EnsureDir_def split: prod.splits option.splits sum.splits)
  next
    case (Some m)
    with True show ?thesis
      unfolding createTarball_def export_world_def tarball_path_def export_command_def
      by (simp add: Let_def EnsureDir_def split: prod.splits option.splits sum.splits)
  qed
qed

end
